theory Spec2Isabelle
  imports Main "HOL-Library.Word"
begin

section \<open>The flat map \<open>detail::unordered_flat_map\<close>\<close>

text \<open>
  The map is a vector of (key, value) pairs. An iterator is modelled by its position;
  \<open>end()\<close> is the length of the vector. \<open>std::find_if\<close> with the predicate
  \<open>p.first == key\<close> returns the position of the first pair with that key.
\<close>

type_synonym ('k, 'v) unordered_flat_map = "('k \<times> 'v) list"

fun find_if_key :: "('k, 'v) unordered_flat_map \<Rightarrow> 'k \<Rightarrow> nat" where
  "find_if_key [] key = 0"
| "find_if_key (p # ps) key = (if fst p = key then 0 else Suc (find_if_key ps key))"

definition end_ufm :: "('k, 'v) unordered_flat_map \<Rightarrow> nat" where
  "end_ufm m_data = length m_data"

definition find_ufm :: "('k, 'v) unordered_flat_map \<Rightarrow> 'k \<Rightarrow> nat" where
  "find_ufm m_data key = find_if_key m_data key"

definition insert_ufm ::
  "('k, 'v) unordered_flat_map \<Rightarrow> 'k \<Rightarrow> 'v \<Rightarrow> ('k, 'v) unordered_flat_map" where
  "insert_ufm m_data key val =
     (let it = find_if_key m_data key in
      if it = length m_data then m_data @ [(key, val)]
      else m_data[it := (fst (m_data ! it), val)])"

text \<open>
  \<open>operator[]\<close> returns a reference into the vector: the model returns the vector
  (extended by a default-constructed value when the key was absent) together with the
  position referred to. \<open>dflt\<close> is \<open>value_type()\<close>.
\<close>

definition subscript ::
  "'v \<Rightarrow> ('k, 'v) unordered_flat_map \<Rightarrow> 'k \<Rightarrow> ('k, 'v) unordered_flat_map \<times> nat" where
  "subscript dflt m_data key =
     (let it = find_if_key m_data key in
      if it = length m_data then (m_data @ [(key, dflt)], length m_data)
      else (m_data, it))"

text \<open>Assignment through the reference returned by \<open>operator[]\<close>.\<close>

definition assign_ref ::
  "('k, 'v) unordered_flat_map \<times> nat \<Rightarrow> 'v \<Rightarrow> ('k, 'v) unordered_flat_map" where
  "assign_ref r val = (case r of (m_data, i) \<Rightarrow> m_data[i := (fst (m_data ! i), val)])"

section \<open>Producers and exceptions\<close>

text \<open>
  \<open>size_t\<close> is a 64-bit word. An exception is either the \<open>std::runtime_error\<close> the
  factory throws (with its message), the \<open>std::bad_function_call\<close> of an empty
  \<open>std::function\<close>, or any other exception object a producer throws.
\<close>

type_synonym size_t = "64 word"

datatype 'e exn = runtime_error string | bad_function_call | thrown 'e

text \<open>
  A \<open>std::function<R(Args...)>\<close> is a callable with side effects: it takes the
  arguments and the state of the world outside the factory, and either throws or returns
  a result, leaving a new world. A producer cannot touch the registries themselves: it
  runs while the factory's mutex is held, so a producer re-entering the factory blocks
  forever. The arguments stand for the forwarded references \<open>std::forward<Args>(args)...\<close>,
  the same at every call of a loop; the objects they refer to belong to the world, so a
  call that moves from an argument changes the world.
\<close>

type_synonym ('a, 'w, 'e, 'r) std_function = "'a \<Rightarrow> 'w \<Rightarrow> ('e exn + 'r) \<times> 'w"

definition empty_function :: "('a, 'w, 'e, 'r) std_function" where
  "empty_function args w = (Inl bad_function_call, w)"

text \<open>
  Storing a callable that returns \<open>R\<close> in a \<open>std::function\<close> that returns \<open>R'\<close>
  converts the result on return.
\<close>

definition convert_result ::
  "('r \<Rightarrow> 'q) \<Rightarrow> ('a, 'w, 'e, 'r) std_function \<Rightarrow> ('a, 'w, 'e, 'q) std_function" where
  "convert_result conv f args w =
     (case f args w of (Inl e, w') \<Rightarrow> (Inl e, w') | (Inr r, w') \<Rightarrow> (Inr (conv r), w'))"

section \<open>The state of \<open>static_factory<BaseType, KeyType>\<close>\<close>

text \<open>
  \<open>g_registry<RetType, Args...>\<close> is one flat map for each return type and each decayed
  argument list. The factory only ever uses four return types: \<open>base_type\<close>,
  \<open>base_type*\<close>, \<open>std::shared_ptr<base_type>\<close> and \<open>std::unique_ptr<base_type>\<close>; the
  argument list is the index \<open>'sg\<close>. A value of \<open>base_type\<close> has type \<open>'v\<close>; a handle
  (raw, shared or unique pointer) is \<open>None\<close> when null and \<open>Some obj\<close> otherwise.
\<close>

type_synonym ('a, 'w, 'e, 'r) registry = "(size_t, ('a, 'w, 'e, 'r) std_function) unordered_flat_map"

record ('sg, 'a, 'w, 'e, 'v, 'c) static_factory =
  g_registry_value :: "'sg \<Rightarrow> ('a, 'w, 'e, 'v) registry"
  g_registry_ptr :: "'sg \<Rightarrow> ('a, 'w, 'e, 'c option) registry"
  g_registry_shared :: "'sg \<Rightarrow> ('a, 'w, 'e, 'c option) registry"
  g_registry_unique :: "'sg \<Rightarrow> ('a, 'w, 'e, 'c option) registry"
  world :: 'w

text \<open>Static storage starts with every map empty.\<close>

definition initial_factory :: "'w \<Rightarrow> ('sg, 'a, 'w, 'e, 'v, 'c) static_factory" where
  "initial_factory w =
     \<lparr>g_registry_value = (\<lambda>sg. []), g_registry_ptr = (\<lambda>sg. []),
      g_registry_shared = (\<lambda>sg. []), g_registry_unique = (\<lambda>sg. []), world = w\<rparr>"

text \<open>\<open>registry[hash] = f\<close>: \<open>operator[]\<close>, then assignment through the reference.\<close>

definition registry_assign ::
  "('a, 'w, 'e, 'r) registry \<Rightarrow> size_t \<Rightarrow> ('a, 'w, 'e, 'r) std_function \<Rightarrow> ('a, 'w, 'e, 'r) registry" where
  "registry_assign reg hash f = assign_ref (subscript empty_function reg hash) f"

section \<open>Registration\<close>

text \<open>
  What the templates ask of \<open>ConcreteType\<close>: its \<open>typeid(...).hash_code()\<close>, whether
  \<open>base_type\<close> is a base of it, the conversion to \<open>base_type\<close> when
  \<open>std::is_convertible_v<ConcreteType, base_type>\<close> holds, and its constructor for each
  argument list. A registration whose \<open>static_assert\<close> fails does not compile: the
  model returns \<open>None\<close>.
\<close>

record ('sg, 'a, 'w, 'e, 'v, 'c) concrete_type =
  hash_code :: size_t
  is_base_of :: bool
  to_base :: "('c \<Rightarrow> 'v) option"
  construct :: "'sg \<Rightarrow> ('a, 'w, 'e, 'c) std_function"

definition register_type ::
  "('k \<Rightarrow> size_t) \<Rightarrow> ('sg, 'a, 'w, 'e, 'v, 'c) concrete_type \<Rightarrow> 'sg \<Rightarrow> 'k \<Rightarrow>
   ('sg, 'a, 'w, 'e, 'v, 'c) static_factory \<Rightarrow> ('sg, 'a, 'w, 'e, 'v, 'c) static_factory option" where
  "register_type g_hash_function T sg key s =
     (if \<not> (is_base_of T \<or> to_base T \<noteq> None) then None
      else
        let hash = g_hash_function key in
        case to_base T of
          Some conv \<Rightarrow>
            Some (s\<lparr>g_registry_value := (g_registry_value s)
              (sg := registry_assign (g_registry_value s sg) hash
                       (convert_result conv (construct T sg)))\<rparr>)
        | None \<Rightarrow>
            if is_base_of T then
              Some (s\<lparr>g_registry_ptr := (g_registry_ptr s)
                        (sg := registry_assign (g_registry_ptr s sg) hash
                                 (convert_result Some (construct T sg))),
                      g_registry_shared := (g_registry_shared s)
                        (sg := registry_assign (g_registry_shared s sg) hash
                                 (convert_result Some (construct T sg))),
                      g_registry_unique := (g_registry_unique s)
                        (sg := registry_assign (g_registry_unique s sg) hash
                                 (convert_result Some (construct T sg)))\<rparr>)
            else None)"

text \<open>
  The overload without a key passes \<open>typeid(ConcreteType).hash_code()\<close> as the key;
  \<open>key_of_size_t\<close> is the implicit conversion from \<open>size_t\<close> to \<open>key_type\<close> that the
  call needs.
\<close>

definition register_type_id ::
  "('k \<Rightarrow> size_t) \<Rightarrow> (size_t \<Rightarrow> 'k) \<Rightarrow> ('sg, 'a, 'w, 'e, 'v, 'c) concrete_type \<Rightarrow> 'sg \<Rightarrow>
   ('sg, 'a, 'w, 'e, 'v, 'c) static_factory \<Rightarrow> ('sg, 'a, 'w, 'e, 'v, 'c) static_factory option" where
  "register_type_id g_hash_function key_of_size_t T sg s =
     register_type g_hash_function T sg (key_of_size_t (hash_code T)) s"

text \<open>
  What \<open>register_function_impl\<close> asks of the callable's \<open>ReturnType\<close>: whether
  \<open>base_type\<close> is a base of it, and, for each of the four tests of the cascade, the
  conversion the assignment to the registry's \<open>std::function\<close> applies when the test
  holds (\<open>None\<close> when it does not).
\<close>

record ('r, 'v, 'c) return_type =
  rt_is_base_of :: bool
  rt_to_base :: "('r \<Rightarrow> 'v) option"
  rt_to_ptr :: "('r \<Rightarrow> 'c option) option"
  rt_shared_of_derived :: "('r \<Rightarrow> 'c option) option"
  rt_unique_of_derived :: "('r \<Rightarrow> 'c option) option"

definition register_function_impl ::
  "('k \<Rightarrow> size_t) \<Rightarrow> ('r, 'v, 'c) return_type \<Rightarrow> 'sg \<Rightarrow> 'k \<Rightarrow> ('a, 'w, 'e, 'r) std_function \<Rightarrow>
   ('sg, 'a, 'w, 'e, 'v, 'c) static_factory \<Rightarrow> ('sg, 'a, 'w, 'e, 'v, 'c) static_factory option" where
  "register_function_impl g_hash_function R sg key func s =
     (if \<not> (rt_is_base_of R \<or> rt_to_base R \<noteq> None) then None
      else
        let hash = g_hash_function key in
        case rt_to_base R of
          Some conv \<Rightarrow>
            Some (s\<lparr>g_registry_value := (g_registry_value s)
              (sg := registry_assign (g_registry_value s sg) hash (convert_result conv func))\<rparr>)
        | None \<Rightarrow>
        (case rt_to_ptr R of
          Some conv \<Rightarrow>
            Some (s\<lparr>g_registry_ptr := (g_registry_ptr s)
              (sg := registry_assign (g_registry_ptr s sg) hash (convert_result conv func))\<rparr>)
        | None \<Rightarrow>
        (case rt_shared_of_derived R of
          Some conv \<Rightarrow>
            Some (s\<lparr>g_registry_shared := (g_registry_shared s)
              (sg := registry_assign (g_registry_shared s sg) hash (convert_result conv func))\<rparr>)
        | None \<Rightarrow>
        (case rt_unique_of_derived R of
          Some conv \<Rightarrow>
            Some (s\<lparr>g_registry_unique := (g_registry_unique s)
              (sg := registry_assign (g_registry_unique s sg) hash (convert_result conv func))\<rparr>)
        | None \<Rightarrow> None))))"

definition register_function ::
  "('k \<Rightarrow> size_t) \<Rightarrow> ('r, 'v, 'c) return_type \<Rightarrow> 'sg \<Rightarrow> 'k \<Rightarrow> ('a, 'w, 'e, 'r) std_function \<Rightarrow>
   ('sg, 'a, 'w, 'e, 'v, 'c) static_factory \<Rightarrow> ('sg, 'a, 'w, 'e, 'v, 'c) static_factory option" where
  "register_function g_hash_function R sg key func s =
     register_function_impl g_hash_function R sg key func s"

section \<open>Instantiation by key and by type identity\<close>

text \<open>
  The body shared by every \<open>make*\<close>: find the hash in the registry, throw
  \<open>std::runtime_error("Registry not found")\<close> at \<open>end()\<close>, otherwise call the stored
  function on the arguments.
\<close>

definition find_and_call ::
  "('a, 'w, 'e, 'r) registry \<Rightarrow> size_t \<Rightarrow> 'a \<Rightarrow> ('sg, 'a, 'w, 'e, 'v, 'c) static_factory \<Rightarrow>
   ('e exn + 'r) \<times> ('sg, 'a, 'w, 'e, 'v, 'c) static_factory" where
  "find_and_call reg hash args s =
     (let it = find_ufm reg hash in
      if it = end_ufm reg then (Inl (runtime_error ''Registry not found''), s)
      else (case snd (reg ! it) args (world s) of (r, w') \<Rightarrow> (r, s\<lparr>world := w'\<rparr>)))"

definition make ::
  "('k \<Rightarrow> size_t) \<Rightarrow> 'sg \<Rightarrow> 'k \<Rightarrow> 'a \<Rightarrow> ('sg, 'a, 'w, 'e, 'v, 'c) static_factory \<Rightarrow>
   ('e exn + 'v) \<times> ('sg, 'a, 'w, 'e, 'v, 'c) static_factory" where
  "make g_hash_function sg key args s =
     find_and_call (g_registry_value s sg) (g_hash_function key) args s"

definition make_ptr ::
  "('k \<Rightarrow> size_t) \<Rightarrow> 'sg \<Rightarrow> 'k \<Rightarrow> 'a \<Rightarrow> ('sg, 'a, 'w, 'e, 'v, 'c) static_factory \<Rightarrow>
   ('e exn + 'c option) \<times> ('sg, 'a, 'w, 'e, 'v, 'c) static_factory" where
  "make_ptr g_hash_function sg key args s =
     find_and_call (g_registry_ptr s sg) (g_hash_function key) args s"

definition make_shared ::
  "('k \<Rightarrow> size_t) \<Rightarrow> 'sg \<Rightarrow> 'k \<Rightarrow> 'a \<Rightarrow> ('sg, 'a, 'w, 'e, 'v, 'c) static_factory \<Rightarrow>
   ('e exn + 'c option) \<times> ('sg, 'a, 'w, 'e, 'v, 'c) static_factory" where
  "make_shared g_hash_function sg key args s =
     find_and_call (g_registry_shared s sg) (g_hash_function key) args s"

definition make_unique ::
  "('k \<Rightarrow> size_t) \<Rightarrow> 'sg \<Rightarrow> 'k \<Rightarrow> 'a \<Rightarrow> ('sg, 'a, 'w, 'e, 'v, 'c) static_factory \<Rightarrow>
   ('e exn + 'c option) \<times> ('sg, 'a, 'w, 'e, 'v, 'c) static_factory" where
  "make_unique g_hash_function sg key args s =
     find_and_call (g_registry_unique s sg) (g_hash_function key) args s"

text \<open>
  The overloads taking \<open>ConcreteType\<close> look up \<open>typeid(ConcreteType).hash_code()\<close>
  itself. \<open>make<ConcreteType>\<close> is constrained by
  \<open>std::is_convertible_v<ConcreteType, base_type>\<close>: without it the call does not
  compile (\<open>None\<close>). The pointer overloads cast the handle to \<open>ConcreteType\<close>, which
  leaves the handle as it is.
\<close>

definition make_T ::
  "('sg, 'a, 'w, 'e, 'v, 'c) concrete_type \<Rightarrow> 'sg \<Rightarrow> 'a \<Rightarrow> ('sg, 'a, 'w, 'e, 'v, 'c) static_factory \<Rightarrow>
   (('e exn + 'v) \<times> ('sg, 'a, 'w, 'e, 'v, 'c) static_factory) option" where
  "make_T T sg args s =
     (if to_base T = None then None
      else Some (find_and_call (g_registry_value s sg) (hash_code T) args s))"

definition make_ptr_T ::
  "('sg, 'a, 'w, 'e, 'v, 'c) concrete_type \<Rightarrow> 'sg \<Rightarrow> 'a \<Rightarrow> ('sg, 'a, 'w, 'e, 'v, 'c) static_factory \<Rightarrow>
   ('e exn + 'c option) \<times> ('sg, 'a, 'w, 'e, 'v, 'c) static_factory" where
  "make_ptr_T T sg args s = find_and_call (g_registry_ptr s sg) (hash_code T) args s"

definition make_shared_T ::
  "('sg, 'a, 'w, 'e, 'v, 'c) concrete_type \<Rightarrow> 'sg \<Rightarrow> 'a \<Rightarrow> ('sg, 'a, 'w, 'e, 'v, 'c) static_factory \<Rightarrow>
   ('e exn + 'c option) \<times> ('sg, 'a, 'w, 'e, 'v, 'c) static_factory" where
  "make_shared_T T sg args s = find_and_call (g_registry_shared s sg) (hash_code T) args s"

definition make_unique_T ::
  "('sg, 'a, 'w, 'e, 'v, 'c) concrete_type \<Rightarrow> 'sg \<Rightarrow> 'a \<Rightarrow> ('sg, 'a, 'w, 'e, 'v, 'c) static_factory \<Rightarrow>
   ('e exn + 'c option) \<times> ('sg, 'a, 'w, 'e, 'v, 'c) static_factory" where
  "make_unique_T T sg args s = find_and_call (g_registry_unique s sg) (hash_code T) args s"

section \<open>Instantiation by trying every producer\<close>

text \<open>
  The range-for loop of \<open>try_make\<close> over the registry, in the vector's order. The loop
  carries \<open>eptr\<close> (\<open>None\<close> is the null \<open>std::exception_ptr\<close>) and the world. It leaves
  with \<open>Inr v\<close> at the first call that returns, and with \<open>Inl eptr\<close> when it has run
  past the last entry.
\<close>

fun try_make_loop ::
  "('a, 'w, 'e, 'v) registry \<Rightarrow> 'a \<Rightarrow> 'e exn option \<Rightarrow> 'w \<Rightarrow> ('e exn option + 'v) \<times> 'w" where
  "try_make_loop [] args eptr w = (Inl eptr, w)"
| "try_make_loop (p # ps) args eptr w =
     (case snd p args w of
        (Inr v, w') \<Rightarrow> (Inr v, w')
      | (Inl e, w') \<Rightarrow> try_make_loop ps args (Some e) w')"

text \<open>
  \<open>base_type_ctor\<close> is \<open>base_type()\<close> when
  \<open>std::is_default_constructible_v<base_type>\<close> holds, and \<open>None\<close> otherwise.
\<close>

definition try_make ::
  "('w \<Rightarrow> ('e exn + 'v) \<times> 'w) option \<Rightarrow> 'sg \<Rightarrow> 'a \<Rightarrow> ('sg, 'a, 'w, 'e, 'v, 'c) static_factory \<Rightarrow>
   ('e exn + 'v) \<times> ('sg, 'a, 'w, 'e, 'v, 'c) static_factory" where
  "try_make base_type_ctor sg args s =
     (case try_make_loop (g_registry_value s sg) args None (world s) of
        (Inr v, w') \<Rightarrow> (Inr v, s\<lparr>world := w'\<rparr>)
      | (Inl (Some e), w') \<Rightarrow> (Inl e, s\<lparr>world := w'\<rparr>)
      | (Inl None, w') \<Rightarrow>
          (case base_type_ctor of
             Some ctor \<Rightarrow> (case ctor w' of (r, w'') \<Rightarrow> (r, s\<lparr>world := w''\<rparr>))
           | None \<Rightarrow> (Inl (runtime_error ''no valid registery is found''), s\<lparr>world := w'\<rparr>)))"

text \<open>
  The loops of \<open>try_make_ptr\<close>, \<open>try_make_shared\<close> and \<open>try_make_unique\<close> are the same
  text over three registries: a call that returns a null handle does not leave the loop
  and does not touch \<open>eptr\<close>.
\<close>

fun try_make_handle_loop ::
  "('a, 'w, 'e, 'c option) registry \<Rightarrow> 'a \<Rightarrow> 'e exn option \<Rightarrow> 'w \<Rightarrow>
   ('e exn option + 'c option) \<times> 'w" where
  "try_make_handle_loop [] args eptr w = (Inl eptr, w)"
| "try_make_handle_loop (p # ps) args eptr w =
     (case snd p args w of
        (Inr obj, w') \<Rightarrow>
          if obj \<noteq> None then (Inr obj, w') else try_make_handle_loop ps args eptr w'
      | (Inl e, w') \<Rightarrow> try_make_handle_loop ps args (Some e) w')"

definition try_make_handle ::
  "('a, 'w, 'e, 'c option) registry \<Rightarrow> 'a \<Rightarrow> ('sg, 'a, 'w, 'e, 'v, 'c) static_factory \<Rightarrow>
   ('e exn + 'c option) \<times> ('sg, 'a, 'w, 'e, 'v, 'c) static_factory" where
  "try_make_handle reg args s =
     (case try_make_handle_loop reg args None (world s) of
        (Inr obj, w') \<Rightarrow> (Inr obj, s\<lparr>world := w'\<rparr>)
      | (Inl (Some e), w') \<Rightarrow> (Inl e, s\<lparr>world := w'\<rparr>)
      | (Inl None, w') \<Rightarrow> (Inr None, s\<lparr>world := w'\<rparr>))"

definition try_make_ptr ::
  "'sg \<Rightarrow> 'a \<Rightarrow> ('sg, 'a, 'w, 'e, 'v, 'c) static_factory \<Rightarrow>
   ('e exn + 'c option) \<times> ('sg, 'a, 'w, 'e, 'v, 'c) static_factory" where
  "try_make_ptr sg args s = try_make_handle (g_registry_ptr s sg) args s"

definition try_make_shared ::
  "'sg \<Rightarrow> 'a \<Rightarrow> ('sg, 'a, 'w, 'e, 'v, 'c) static_factory \<Rightarrow>
   ('e exn + 'c option) \<times> ('sg, 'a, 'w, 'e, 'v, 'c) static_factory" where
  "try_make_shared sg args s = try_make_handle (g_registry_shared s sg) args s"

definition try_make_unique ::
  "'sg \<Rightarrow> 'a \<Rightarrow> ('sg, 'a, 'w, 'e, 'v, 'c) static_factory \<Rightarrow>
   ('e exn + 'c option) \<times> ('sg, 'a, 'w, 'e, 'v, 'c) static_factory" where
  "try_make_unique sg args s = try_make_handle (g_registry_unique s sg) args s"

text \<open>
  The world a loop has reached after calling every producer of a list in turn, whatever
  each call did.
\<close>

fun world_after :: "('a, 'w, 'e, 'r) registry \<Rightarrow> 'a \<Rightarrow> 'w \<Rightarrow> 'w" where
  "world_after [] args w = w"
| "world_after (p # ps) args w = world_after ps args (snd (snd p args w))"

section \<open>Concrete factories\<close>

text \<open>
  The instances the theorems below are exercised on, after the repository's tests: keys
  are strings, producers take no argument, a \<open>base_type\<close> value and an object are
  numbers, and the world counts the calls made to producers.
\<close>

definition ex_hash :: "string \<Rightarrow> size_t" where
  "ex_hash key = foldl (\<lambda>h c. h * 31 + of_char c) 0 key"

type_synonym ex_function = "(unit, nat, nat, nat) std_function"
type_synonym ex_type = "(unit, unit, nat, nat, nat, nat) concrete_type"
type_synonym ex_factory = "(unit, unit, nat, nat, nat, nat) static_factory"

definition returning :: "nat \<Rightarrow> ex_function" where
  "returning n args w = (Inr n, Suc w)"

definition raising :: "nat \<Rightarrow> ex_function" where
  "raising n args w = (Inl (thrown n), Suc w)"

definition returning_null :: "(unit, nat, nat, nat option) std_function" where
  "returning_null args w = (Inr None, Suc w)"

text \<open>A class derived from an abstract \<open>base_type\<close>, as the tests' \<open>ConcreteClassA\<close>.\<close>

definition derived_type :: "size_t \<Rightarrow> ex_function \<Rightarrow> ex_type" where
  "derived_type code ctor =
     \<lparr>hash_code = code, is_base_of = True, to_base = None, construct = (\<lambda>sg. ctor)\<rparr>"

text \<open>An alternative of a variant \<open>base_type\<close>, as the tests' \<open>dog\<close> and \<open>cat\<close>.\<close>

definition convertible_type :: "size_t \<Rightarrow> ex_function \<Rightarrow> ex_type" where
  "convertible_type code ctor =
     \<lparr>hash_code = code, is_base_of = False, to_base = Some id, construct = (\<lambda>sg. ctor)\<rparr>"

definition ConcreteClassA :: ex_type where
  "ConcreteClassA = derived_type 0x41 (returning 42)"

definition ConcreteClassB :: ex_type where
  "ConcreteClassB = derived_type 0x42 (returning 84)"

text \<open>A callable returning a value convertible to \<open>base_type\<close>.\<close>

definition value_return :: "(nat, nat, nat) return_type" where
  "value_return =
     \<lparr>rt_is_base_of = False, rt_to_base = Some id, rt_to_ptr = None,
      rt_shared_of_derived = None, rt_unique_of_derived = None\<rparr>"

text \<open>
  A callable returning \<open>Derived*\<close> for a class \<open>Derived\<close> derived from an abstract
  \<open>base_type\<close>: a pointer is not a class, so \<open>base_type\<close> is not a base of it, and it
  does not convert to \<open>base_type\<close>; it converts to \<open>base_type*\<close>.
\<close>

definition pointer_return :: "(nat option, nat, nat) return_type" where
  "pointer_return =
     \<lparr>rt_is_base_of = False, rt_to_base = None, rt_to_ptr = Some id,
      rt_shared_of_derived = None, rt_unique_of_derived = None\<rparr>"

text \<open>Likewise for \<open>std::shared_ptr<Derived>\<close> and \<open>std::unique_ptr<Derived>\<close>.\<close>

definition shared_return :: "(nat option, nat, nat) return_type" where
  "shared_return =
     \<lparr>rt_is_base_of = False, rt_to_base = None, rt_to_ptr = None,
      rt_shared_of_derived = Some id, rt_unique_of_derived = None\<rparr>"

definition unique_return :: "(nat option, nat, nat) return_type" where
  "unique_return =
     \<lparr>rt_is_base_of = False, rt_to_base = None, rt_to_ptr = None,
      rt_shared_of_derived = None, rt_unique_of_derived = Some id\<rparr>"

text \<open>Registrations in sequence, from the empty factory.\<close>

definition or_initial :: "ex_factory option \<Rightarrow> ex_factory" where
  "or_initial r = (case r of Some s \<Rightarrow> s | None \<Rightarrow> initial_factory 0)"

definition factory_A :: ex_factory where
  "factory_A = or_initial (register_type ex_hash ConcreteClassA () ''ClassA'' (initial_factory 0))"

text \<open>\<open>base_type()\<close> of a default-constructible \<open>base_type\<close>.\<close>

definition default_ctor :: "nat \<Rightarrow> (nat exn + nat) \<times> nat" where
  "default_ctor w = (Inr 0, w)"

text \<open>
  Producers registered in the order \<open>P1\<close>, \<open>P2\<close>, \<open>P3\<close>, in all four registries:
  callables for \<open>base_type\<close>, derived classes for the three handles.
\<close>

definition register_three :: "ex_function \<Rightarrow> ex_function \<Rightarrow> ex_function \<Rightarrow> ex_factory" where
  "register_three P1 P2 P3 = or_initial
     (Option.bind (Option.bind (Option.bind (Option.bind (Option.bind
        (register_function ex_hash value_return () ''P1'' P1 (initial_factory 0))
        (register_function ex_hash value_return () ''P2'' P2))
        (register_function ex_hash value_return () ''P3'' P3))
        (register_type ex_hash (derived_type 1 P1) () ''P1''))
        (register_type ex_hash (derived_type 2 P2) () ''P2''))
        (register_type ex_hash (derived_type 3 P3) () ''P3''))"

definition factory_fallback :: ex_factory where
  "factory_fallback = register_three (raising 1) (returning 2) (returning 3)"

definition factory_all_raise :: ex_factory where
  "factory_all_raise = register_three (raising 1) (raising 2) (raising 3)"

text \<open>A factory whose handle registries hold two producers that return null.\<close>

definition factory_null :: ex_factory where
  "factory_null =
     \<lparr>g_registry_value = (\<lambda>sg. []),
      g_registry_ptr = (\<lambda>sg. [(1, returning_null), (2, returning_null)]),
      g_registry_shared = (\<lambda>sg. [(1, returning_null), (2, returning_null)]),
      g_registry_unique = (\<lambda>sg. [(1, returning_null), (2, returning_null)]),
      world = 0\<rparr>"

text \<open>
  A factory with \<open>KeyType = int\<close>: \<open>std::hash<int>\<close> casts the key to \<open>size_t\<close>
  (with sign extension), and a \<open>size_t\<close> converts to \<open>int\<close> by keeping its low 32
  bits. \<open>WideDerived\<close> and \<open>WideValue\<close> are types whose \<open>hash_code()\<close> does not fit
  in 32 bits.
\<close>

definition std_hash_int :: "32 word \<Rightarrow> size_t" where
  "std_hash_int key = scast key"

definition int_of_size_t :: "size_t \<Rightarrow> 32 word" where
  "int_of_size_t n = ucast n"

definition WideDerived :: ex_type where
  "WideDerived = derived_type 0x9E3779B97F4A7C15 (returning 42)"

definition WideValue :: ex_type where
  "WideValue = convertible_type 0x9E3779B97F4A7C15 (returning 1)"

text \<open>
  Return types that pass the first \<open>static_assert\<close> of \<open>register_function_impl\<close>
  without converting to \<open>base_type\<close>, and reach the second, third and fourth test of
  the cascade: for the second, a class derived from an abstract \<open>base_type\<close> with a
  conversion operator to \<open>base_type*\<close>.
\<close>

definition converting_return :: "(nat option, nat, nat) return_type" where
  "converting_return =
     \<lparr>rt_is_base_of = True, rt_to_base = None, rt_to_ptr = Some id,
      rt_shared_of_derived = None, rt_unique_of_derived = None\<rparr>"

definition shared_wrapper_return :: "(nat option, nat, nat) return_type" where
  "shared_wrapper_return =
     \<lparr>rt_is_base_of = True, rt_to_base = None, rt_to_ptr = None,
      rt_shared_of_derived = Some id, rt_unique_of_derived = None\<rparr>"

definition unique_wrapper_return :: "(nat option, nat, nat) return_type" where
  "unique_wrapper_return =
     \<lparr>rt_is_base_of = True, rt_to_base = None, rt_to_ptr = None,
      rt_shared_of_derived = None, rt_unique_of_derived = Some id\<rparr>"

definition returning_handle :: "nat \<Rightarrow> (unit, nat, nat, nat option) std_function" where
  "returning_handle n args w = (Inr (Some n), Suc w)"

text \<open>\<open>ConcreteClassA\<close> registered under the key \<open>"k"\<close>.\<close>

definition factory_k :: ex_factory where
  "factory_k = or_initial (register_type ex_hash ConcreteClassA () ''k'' (initial_factory 0))"

text \<open>Three producers of which the second throws.\<close>

definition factory_second_raises :: ex_factory where
  "factory_second_raises = register_three (returning 1) (raising 2) (returning 3)"

text \<open>
  A producer that throws under \<open>P1\<close>, one that returns 20 under \<open>P2\<close>, and then one
  that returns 30 registered under \<open>P1\<close> again, in all four registries.
\<close>

definition factory_reregistered :: ex_factory where
  "factory_reregistered = or_initial
     (Option.bind (Option.bind (Option.bind (Option.bind (Option.bind
        (register_function ex_hash value_return () ''P1'' (raising 1) (initial_factory 0))
        (register_function ex_hash value_return () ''P2'' (returning 20)))
        (register_function ex_hash value_return () ''P1'' (returning 30)))
        (register_type ex_hash (derived_type 1 (raising 1)) () ''P1''))
        (register_type ex_hash (derived_type 2 (returning 20)) () ''P2''))
        (register_type ex_hash (derived_type 3 (returning 30)) () ''P1''))"

text \<open>A registry after a sequence of assignments \<open>registry[hash] = f\<close>.\<close>

definition assign_all ::
  "('a, 'w, 'e, 'r) registry \<Rightarrow> (size_t \<times> ('a, 'w, 'e, 'r) std_function) list \<Rightarrow>
   ('a, 'w, 'e, 'r) registry" where
  "assign_all reg evs = foldl (\<lambda>m ev. registry_assign m (fst ev) (snd ev)) reg evs"

section \<open>The invariant of the registries\<close>

text \<open>In every registry, no two entries carry the same id.\<close>

definition unique_ids :: "('sg, 'a, 'w, 'e, 'v, 'c) static_factory \<Rightarrow> bool" where
  "unique_ids s \<longleftrightarrow>
     (\<forall>sg. distinct (map fst (g_registry_value s sg)) \<and>
           distinct (map fst (g_registry_ptr s sg)) \<and>
           distinct (map fst (g_registry_shared s sg)) \<and>
           distinct (map fst (g_registry_unique s sg)))"

section \<open>Properties of the flat map\<close>

lemma find_if_key_end_iff: "find_if_key m k = length m \<longleftrightarrow> k \<notin> fst ` set m"
  by (induction m) auto

lemma find_if_key_map_of:
  "map_of m k = (if find_if_key m k = length m then None else Some (snd (m ! find_if_key m k)))"
  by (induction m) auto

lemma map_of_registry_assign: "map_of (registry_assign m k f) = (map_of m)(k \<mapsto> f)"
proof (induction m)
  case Nil
  show ?case by (simp add: registry_assign_def subscript_def assign_ref_def)
next
  case (Cons p ps)
  then show ?case
    by (cases p)
      (auto simp: registry_assign_def subscript_def assign_ref_def Let_def fun_eq_iff
        split: if_splits)
qed

text \<open>
  Assigning under a new id appends the entry; assigning under an id already present
  leaves the order of the ids as it was.
\<close>

lemma keys_registry_assign:
  "map fst (registry_assign m k f) = (if k \<in> fst ` set m then map fst m else map fst m @ [k])"
proof (induction m)
  case Nil
  show ?case by (simp add: registry_assign_def subscript_def assign_ref_def)
next
  case (Cons p ps)
  then show ?case
    by (cases p)
      (auto simp: registry_assign_def subscript_def assign_ref_def Let_def split: if_splits)
qed

lemma registry_assign_new:
  "k \<notin> fst ` set m \<Longrightarrow> registry_assign m k f = m @ [(k, f)]"
  by (simp add: registry_assign_def subscript_def assign_ref_def Let_def find_if_key_end_iff)

lemma set_keys_registry_assign:
  "fst ` set (registry_assign reg hash f) = insert hash (fst ` set reg)"
proof -
  have "set (map fst (registry_assign reg hash f)) = insert hash (fst ` set reg)"
    by (auto simp: keys_registry_assign)
  then show ?thesis by simp
qed

lemma distinct_registry_assign:
  "distinct (map fst m) \<Longrightarrow> distinct (map fst (registry_assign m k f))"
  by (auto simp: keys_registry_assign)

lemma length_filter_key:
  "distinct (map fst xs) \<Longrightarrow>
   length (filter (\<lambda>p. fst p = hash) xs) = (if hash \<in> fst ` set xs then 1 else 0)"
  by (induction xs) (auto simp: image_iff)

lemma count_registry_assign:
  assumes "distinct (map fst reg)"
  shows "length (filter (\<lambda>p. fst p = hash) (registry_assign reg hash f)) = 1"
proof -
  from assms have d: "distinct (map fst (registry_assign reg hash f))"
    by (rule distinct_registry_assign)
  have m: "hash \<in> fst ` set (registry_assign reg hash f)"
    by (simp add: set_keys_registry_assign)
  from length_filter_key [OF d, of hash] m show ?thesis
    by simp
qed

lemma count_registry_assign_twice:
  assumes "distinct (map fst reg)"
  shows "length (filter (\<lambda>p. fst p = hash)
           (registry_assign (registry_assign reg hash f) hash g)) = 1"
  by (rule count_registry_assign) (rule distinct_registry_assign [OF assms])

lemma find_if_key_first:
  "hash \<notin> fst ` set pre \<Longrightarrow> find_if_key (pre @ (hash, g) # post) hash = length pre"
  by (induction pre) auto

lemma registry_assign_existing:
  assumes "hash \<notin> fst ` set pre"
  shows "registry_assign (pre @ (hash, g) # post) hash f = pre @ (hash, f) # post"
  by (simp add: registry_assign_def subscript_def assign_ref_def Let_def
      find_if_key_first [OF assms])

lemma assign_all_snoc:
  "assign_all reg (evs @ [ev]) = registry_assign (assign_all reg evs) (fst ev) (snd ev)"
  by (simp add: assign_all_def)

text \<open>
  A registry built from the empty one lists the ids in the order of their first
  assignment, and holds under each id the producer assigned to it last.
\<close>

lemma keys_assign_all: "map fst (assign_all [] evs) = rev (remdups (rev (map fst evs)))"
proof (induction evs rule: rev_induct)
  case Nil
  show ?case by (simp add: assign_all_def)
next
  case (snoc ev evs)
  have "fst ` set (assign_all [] evs) = set (map fst (assign_all [] evs))"
    by simp
  also have "\<dots> = fst ` set evs"
    by (simp only: snoc.IH set_rev set_remdups set_map)
  finally have k: "fst ` set (assign_all [] evs) = fst ` set evs" .
  show ?case
    by (simp add: assign_all_snoc keys_registry_assign k snoc.IH)
qed

lemma map_of_assign_all: "map_of (assign_all [] evs) = map_of (rev evs)"
proof (induction evs rule: rev_induct)
  case Nil
  show ?case by (simp add: assign_all_def)
next
  case (snoc ev evs)
  then show ?case
    by (cases ev) (simp add: assign_all_snoc map_of_registry_assign)
qed

section \<open>Lookup and call\<close>

lemma find_and_call_map_of:
  "find_and_call reg hash args s =
     (case map_of reg hash of
        None \<Rightarrow> (Inl (runtime_error ''Registry not found''), s)
      | Some f \<Rightarrow> (fst (f args (world s)), s\<lparr>world := snd (f args (world s))\<rparr>))"
  by (simp add: find_and_call_def find_ufm_def end_ufm_def find_if_key_map_of Let_def
      split: prod.splits)

lemma find_and_call_miss:
  "hash \<notin> fst ` set reg \<Longrightarrow>
   find_and_call reg hash args s = (Inl (runtime_error ''Registry not found''), s)"
  by (simp add: find_and_call_def find_ufm_def end_ufm_def find_if_key_end_iff)

lemma find_and_call_registry_assign:
  "find_and_call (registry_assign reg hash f) hash args s =
     (fst (f args (world s)), s\<lparr>world := snd (f args (world s))\<rparr>)"
  by (simp add: find_and_call_map_of map_of_registry_assign)

lemma find_and_call_world_only:
  "world s1 = world s2 \<Longrightarrow>
   fst (find_and_call reg hash args s1) = fst (find_and_call reg hash args s2)"
  by (simp add: find_and_call_map_of split: option.splits)

lemma snd_convert_result: "snd (convert_result conv f args w) = snd (f args w)"
  by (simp add: convert_result_def split: prod.splits sum.splits)

section \<open>The concrete factories\<close>

lemma ex_hash_ClassA_ClassB: "ex_hash ''ClassB'' \<noteq> ex_hash ''ClassA''"
  by (simp add: ex_hash_def)

lemma factory_A_registries:
  "g_registry_value factory_A () = []"
  "g_registry_ptr factory_A () = [(ex_hash ''ClassA'', convert_result Some (returning 42))]"
  "g_registry_shared factory_A () = [(ex_hash ''ClassA'', convert_result Some (returning 42))]"
  "g_registry_unique factory_A () = [(ex_hash ''ClassA'', convert_result Some (returning 42))]"
  by (simp_all add: factory_A_def or_initial_def register_type_def ConcreteClassA_def
      derived_type_def initial_factory_def registry_assign_def subscript_def assign_ref_def
      Let_def)

lemma ex_hash_P: "ex_hash ''P1'' \<noteq> ex_hash ''P2''" "ex_hash ''P1'' \<noteq> ex_hash ''P3''"
  "ex_hash ''P2'' \<noteq> ex_hash ''P3''" "ex_hash ''P2'' \<noteq> ex_hash ''P1''"
  "ex_hash ''P3'' \<noteq> ex_hash ''P1''" "ex_hash ''P3'' \<noteq> ex_hash ''P2''"
  by (simp_all add: ex_hash_def)

lemma register_three_registries:
  "g_registry_value (register_three P1 P2 P3) () =
     [(ex_hash ''P1'', convert_result id P1), (ex_hash ''P2'', convert_result id P2),
      (ex_hash ''P3'', convert_result id P3)]"
  "g_registry_ptr (register_three P1 P2 P3) () =
     [(ex_hash ''P1'', convert_result Some P1), (ex_hash ''P2'', convert_result Some P2),
      (ex_hash ''P3'', convert_result Some P3)]"
  "g_registry_shared (register_three P1 P2 P3) () =
     [(ex_hash ''P1'', convert_result Some P1), (ex_hash ''P2'', convert_result Some P2),
      (ex_hash ''P3'', convert_result Some P3)]"
  "g_registry_unique (register_three P1 P2 P3) () =
     [(ex_hash ''P1'', convert_result Some P1), (ex_hash ''P2'', convert_result Some P2),
      (ex_hash ''P3'', convert_result Some P3)]"
  "world (register_three P1 P2 P3) = 0"
  by (simp_all add: register_three_def or_initial_def register_type_def register_function_def
      register_function_impl_def value_return_def derived_type_def initial_factory_def
      registry_assign_def subscript_def assign_ref_def Let_def ex_hash_P)

lemma factory_reregistered_registries:
  "g_registry_value factory_reregistered () =
     [(ex_hash ''P1'', convert_result id (returning 30)),
      (ex_hash ''P2'', convert_result id (returning 20))]"
  "g_registry_ptr factory_reregistered () =
     [(ex_hash ''P1'', convert_result Some (returning 30)),
      (ex_hash ''P2'', convert_result Some (returning 20))]"
  "g_registry_shared factory_reregistered () =
     [(ex_hash ''P1'', convert_result Some (returning 30)),
      (ex_hash ''P2'', convert_result Some (returning 20))]"
  "g_registry_unique factory_reregistered () =
     [(ex_hash ''P1'', convert_result Some (returning 30)),
      (ex_hash ''P2'', convert_result Some (returning 20))]"
  "world factory_reregistered = 0"
  by (simp_all add: factory_reregistered_def or_initial_def register_type_def
      register_function_def register_function_impl_def value_return_def derived_type_def
      initial_factory_def registry_assign_def subscript_def assign_ref_def Let_def ex_hash_P)

section \<open>Direct instantiation\<close>

text \<open>
  Claim C3. When the hash of the key has no entry in the registry a \<open>make*\<close> function
  looks in, the call throws \<open>std::runtime_error("Registry not found")\<close> and leaves the
  whole state as it was: the registries, and the world, which no producer has run on.
  This holds for \<open>make\<close>, \<open>make_ptr\<close>, \<open>make_shared\<close> and \<open>make_unique\<close>.
\<close>

theorem make_miss:
  "(g_hash_function key \<notin> fst ` set (g_registry_value s sg) \<longrightarrow>
      make g_hash_function sg key args s = (Inl (runtime_error ''Registry not found''), s)) \<and>
   (g_hash_function key \<notin> fst ` set (g_registry_ptr s sg) \<longrightarrow>
      make_ptr g_hash_function sg key args s = (Inl (runtime_error ''Registry not found''), s)) \<and>
   (g_hash_function key \<notin> fst ` set (g_registry_shared s sg) \<longrightarrow>
      make_shared g_hash_function sg key args s = (Inl (runtime_error ''Registry not found''), s)) \<and>
   (g_hash_function key \<notin> fst ` set (g_registry_unique s sg) \<longrightarrow>
      make_unique g_hash_function sg key args s = (Inl (runtime_error ''Registry not found''), s))"
  by (simp add: make_def make_ptr_def make_shared_def make_unique_def find_and_call_miss)

theorem make_miss_witness:
  "ex_hash ''ClassB'' \<notin> fst ` set (g_registry_value factory_A ()) \<and>
   ex_hash ''ClassB'' \<notin> fst ` set (g_registry_ptr factory_A ()) \<and>
   ex_hash ''ClassB'' \<notin> fst ` set (g_registry_shared factory_A ()) \<and>
   ex_hash ''ClassB'' \<notin> fst ` set (g_registry_unique factory_A ()) \<and>
   make ex_hash () ''ClassB'' () factory_A =
     (Inl (runtime_error ''Registry not found''), factory_A) \<and>
   make_ptr ex_hash () ''ClassB'' () factory_A =
     (Inl (runtime_error ''Registry not found''), factory_A) \<and>
   make_shared ex_hash () ''ClassB'' () factory_A =
     (Inl (runtime_error ''Registry not found''), factory_A) \<and>
   make_unique ex_hash () ''ClassB'' () factory_A =
     (Inl (runtime_error ''Registry not found''), factory_A)"
proof -
  have "ex_hash ''ClassB'' \<notin> fst ` set (g_registry_value factory_A ())"
    "ex_hash ''ClassB'' \<notin> fst ` set (g_registry_ptr factory_A ())"
    "ex_hash ''ClassB'' \<notin> fst ` set (g_registry_shared factory_A ())"
    "ex_hash ''ClassB'' \<notin> fst ` set (g_registry_unique factory_A ())"
    unfolding factory_A_registries using ex_hash_ClassA_ClassB by simp_all
  with make_miss [of ex_hash "''ClassB''" factory_A "()" "()"] show ?thesis
    by blast
qed

text \<open>
  Claim C8. When the registry holds a producer under the hash of the key and that
  producer throws, \<open>make\<close>, \<open>make_ptr\<close>, \<open>make_shared\<close> and \<open>make_unique\<close> throw
  that same exception, and the world is the one that single call left: the registry
  neither replaces the exception nor calls another producer. The producer a key resolves
  to is the one the association list gives for the key's hash (\<open>map_of\<close>).
\<close>

theorem make_failure_propagates:
  "(map_of (g_registry_value s sg) (g_hash_function key) = Some f \<and>
    f args (world s) = (Inl e, w')
    \<longrightarrow> make g_hash_function sg key args s = (Inl e, s\<lparr>world := w'\<rparr>)) \<and>
   (map_of (g_registry_ptr s sg) (g_hash_function key) = Some fp \<and>
    fp args (world s) = (Inl e, w')
    \<longrightarrow> make_ptr g_hash_function sg key args s = (Inl e, s\<lparr>world := w'\<rparr>)) \<and>
   (map_of (g_registry_shared s sg) (g_hash_function key) = Some fs \<and>
    fs args (world s) = (Inl e, w')
    \<longrightarrow> make_shared g_hash_function sg key args s = (Inl e, s\<lparr>world := w'\<rparr>)) \<and>
   (map_of (g_registry_unique s sg) (g_hash_function key) = Some fu \<and>
    fu args (world s) = (Inl e, w')
    \<longrightarrow> make_unique g_hash_function sg key args s = (Inl e, s\<lparr>world := w'\<rparr>))"
  by (simp add: make_def make_ptr_def make_shared_def make_unique_def find_and_call_map_of)

text \<open>
  The key \<open>"P2"\<close> of three registered producers, of which only the second throws: the
  call throws its exception after one producer call.
\<close>

theorem make_failure_propagates_witness:
  "map_of (g_registry_value factory_second_raises ()) (ex_hash ''P2'')
     = Some (convert_result id (raising 2)) \<and>
   map_of (g_registry_ptr factory_second_raises ()) (ex_hash ''P2'')
     = Some (convert_result Some (raising 2)) \<and>
   map_of (g_registry_shared factory_second_raises ()) (ex_hash ''P2'')
     = Some (convert_result Some (raising 2)) \<and>
   map_of (g_registry_unique factory_second_raises ()) (ex_hash ''P2'')
     = Some (convert_result Some (raising 2)) \<and>
   make ex_hash () ''P2'' () factory_second_raises =
     (Inl (thrown 2), factory_second_raises\<lparr>world := 1\<rparr>) \<and>
   make_ptr ex_hash () ''P2'' () factory_second_raises =
     (Inl (thrown 2), factory_second_raises\<lparr>world := 1\<rparr>) \<and>
   make_shared ex_hash () ''P2'' () factory_second_raises =
     (Inl (thrown 2), factory_second_raises\<lparr>world := 1\<rparr>) \<and>
   make_unique ex_hash () ''P2'' () factory_second_raises =
     (Inl (thrown 2), factory_second_raises\<lparr>world := 1\<rparr>)"
  using make_failure_propagates
    [where s = factory_second_raises and sg = "()" and g_hash_function = ex_hash
       and key = "''P2''" and args = "()" and e = "thrown 2" and w' = 1
       and f = "convert_result id (raising 2)" and fp = "convert_result Some (raising 2)"
       and fs = "convert_result Some (raising 2)" and fu = "convert_result Some (raising 2)"]
  by (simp add: factory_second_raises_def register_three_registries ex_hash_P
      convert_result_def raising_def)

section \<open>Instantiation by trial\<close>

text \<open>
  Claim C5. Over an empty registry \<open>try_make\<close> calls no producer: when \<open>base_type\<close> is
  default-constructible the call is the evaluation of \<open>base_type()\<close>, and otherwise it
  throws \<open>std::runtime_error("no valid registery is found")\<close>, with the state as it
  was.
\<close>

theorem try_make_empty:
  "g_registry_value s sg = [] \<Longrightarrow>
   try_make (Some ctor) sg args s = (fst (ctor (world s)), s\<lparr>world := snd (ctor (world s))\<rparr>) \<and>
   try_make None sg args s = (Inl (runtime_error ''no valid registery is found''), s)"
  by (simp add: try_make_def split: prod.splits)

theorem try_make_empty_witness:
  "g_registry_value (initial_factory 0 :: ex_factory) () = [] \<and>
   try_make (Some default_ctor) () () (initial_factory 0 :: ex_factory) =
     (Inr 0, initial_factory 0) \<and>
   try_make None () () (initial_factory 0 :: ex_factory) =
     (Inl (runtime_error ''no valid registery is found''), initial_factory 0)"
  using try_make_empty [of "initial_factory 0 :: ex_factory" "()" default_ctor "()"]
  by (simp add: initial_factory_def default_ctor_def)

subsection \<open>The loops\<close>

lemma world_after_append:
  "world_after (xs @ ys) args w = world_after ys args (world_after xs args w)"
  by (induction xs arbitrary: w) auto

lemma try_make_loop_all_raise:
  "\<forall>i<length reg. isl (fst (snd (reg ! i) args (world_after (take i reg) args w))) \<Longrightarrow>
   try_make_loop reg args eptr w =
     (Inl (if reg = [] then eptr
           else Some (projl (fst (snd (last reg) args (world_after (butlast reg) args w))))),
      world_after reg args w)"
proof (induction reg arbitrary: eptr w)
  case Nil
  show ?case by simp
next
  case (Cons p ps)
  from Cons.prems have "isl (fst (snd p args w))" by fastforce
  then obtain e w1 where call: "snd p args w = (Inl e, w1)"
    by (cases "snd p args w"; cases "fst (snd p args w)") auto
  have tl: "\<forall>i<length ps. isl (fst (snd (ps ! i) args (world_after (take i ps) args w1)))"
  proof (intro allI impI)
    fix i assume "i < length ps"
    with Cons.prems
    have "isl (fst (snd ((p # ps) ! Suc i) args (world_after (take (Suc i) (p # ps)) args w)))"
      by (metis Suc_less_eq length_Cons)
    then show "isl (fst (snd (ps ! i) args (world_after (take i ps) args w1)))"
      using call by simp
  qed
  show ?case
    using Cons.IH [OF tl, of "Some e"] call by simp
qed

lemma try_make_handle_loop_all_raise:
  "\<forall>i<length reg. isl (fst (snd (reg ! i) args (world_after (take i reg) args w))) \<Longrightarrow>
   try_make_handle_loop reg args eptr w =
     (Inl (if reg = [] then eptr
           else Some (projl (fst (snd (last reg) args (world_after (butlast reg) args w))))),
      world_after reg args w)"
proof (induction reg arbitrary: eptr w)
  case Nil
  show ?case by simp
next
  case (Cons p ps)
  from Cons.prems have "isl (fst (snd p args w))" by fastforce
  then obtain e w1 where call: "snd p args w = (Inl e, w1)"
    by (cases "snd p args w"; cases "fst (snd p args w)") auto
  have tl: "\<forall>i<length ps. isl (fst (snd (ps ! i) args (world_after (take i ps) args w1)))"
  proof (intro allI impI)
    fix i assume "i < length ps"
    with Cons.prems
    have "isl (fst (snd ((p # ps) ! Suc i) args (world_after (take (Suc i) (p # ps)) args w)))"
      by (metis Suc_less_eq length_Cons)
    then show "isl (fst (snd (ps ! i) args (world_after (take i ps) args w1)))"
      using call by simp
  qed
  show ?case
    using Cons.IH [OF tl, of "Some e"] call by simp
qed

lemma try_make_handle_all_raise:
  assumes "reg \<noteq> []"
    and "\<forall>i<length reg. isl (fst (snd (reg ! i) args (world_after (take i reg) args (world s))))"
  shows "try_make_handle reg args s =
     (Inl (projl (fst (snd (last reg) args (world_after (butlast reg) args (world s))))),
      s\<lparr>world := world_after reg args (world s)\<rparr>)"
  using assms by (simp add: try_make_handle_def try_make_handle_loop_all_raise)

text \<open>
  Claim C7. Over a registry that is not empty and whose producers all throw, each at the
  world the calls before it have left, \<open>try_make\<close>, \<open>try_make_ptr\<close>,
  \<open>try_make_shared\<close> and \<open>try_make_unique\<close> throw the exception of the last producer
  of the registry; the exceptions of the earlier ones are dropped. Every producer has
  been called once, in order.
\<close>

theorem try_make_all_raise:
  "(g_registry_value s sg \<noteq> [] \<and>
    (\<forall>i<length (g_registry_value s sg).
       isl (fst (snd (g_registry_value s sg ! i) args
                   (world_after (take i (g_registry_value s sg)) args (world s)))))
    \<longrightarrow> try_make base_type_ctor sg args s =
          (Inl (projl (fst (snd (last (g_registry_value s sg)) args
                              (world_after (butlast (g_registry_value s sg)) args (world s))))),
           s\<lparr>world := world_after (g_registry_value s sg) args (world s)\<rparr>)) \<and>
   (g_registry_ptr s sg \<noteq> [] \<and>
    (\<forall>i<length (g_registry_ptr s sg).
       isl (fst (snd (g_registry_ptr s sg ! i) args
                   (world_after (take i (g_registry_ptr s sg)) args (world s)))))
    \<longrightarrow> try_make_ptr sg args s =
          (Inl (projl (fst (snd (last (g_registry_ptr s sg)) args
                              (world_after (butlast (g_registry_ptr s sg)) args (world s))))),
           s\<lparr>world := world_after (g_registry_ptr s sg) args (world s)\<rparr>)) \<and>
   (g_registry_shared s sg \<noteq> [] \<and>
    (\<forall>i<length (g_registry_shared s sg).
       isl (fst (snd (g_registry_shared s sg ! i) args
                   (world_after (take i (g_registry_shared s sg)) args (world s)))))
    \<longrightarrow> try_make_shared sg args s =
          (Inl (projl (fst (snd (last (g_registry_shared s sg)) args
                              (world_after (butlast (g_registry_shared s sg)) args (world s))))),
           s\<lparr>world := world_after (g_registry_shared s sg) args (world s)\<rparr>)) \<and>
   (g_registry_unique s sg \<noteq> [] \<and>
    (\<forall>i<length (g_registry_unique s sg).
       isl (fst (snd (g_registry_unique s sg ! i) args
                   (world_after (take i (g_registry_unique s sg)) args (world s)))))
    \<longrightarrow> try_make_unique sg args s =
          (Inl (projl (fst (snd (last (g_registry_unique s sg)) args
                              (world_after (butlast (g_registry_unique s sg)) args (world s))))),
           s\<lparr>world := world_after (g_registry_unique s sg) args (world s)\<rparr>))"
proof (intro conjI impI)
  assume "g_registry_value s sg \<noteq> [] \<and>
    (\<forall>i<length (g_registry_value s sg).
       isl (fst (snd (g_registry_value s sg ! i) args
                   (world_after (take i (g_registry_value s sg)) args (world s)))))"
  then show "try_make base_type_ctor sg args s =
          (Inl (projl (fst (snd (last (g_registry_value s sg)) args
                              (world_after (butlast (g_registry_value s sg)) args (world s))))),
           s\<lparr>world := world_after (g_registry_value s sg) args (world s)\<rparr>)"
    by (simp add: try_make_def try_make_loop_all_raise)
qed (simp_all add: try_make_ptr_def try_make_shared_def try_make_unique_def
       try_make_handle_all_raise)

theorem try_make_all_raise_witness:
  "try_make (Some default_ctor) () () factory_all_raise =
     (Inl (thrown 3), factory_all_raise\<lparr>world := 3\<rparr>) \<and>
   try_make_ptr () () factory_all_raise = (Inl (thrown 3), factory_all_raise\<lparr>world := 3\<rparr>) \<and>
   try_make_shared () () factory_all_raise = (Inl (thrown 3), factory_all_raise\<lparr>world := 3\<rparr>) \<and>
   try_make_unique () () factory_all_raise = (Inl (thrown 3), factory_all_raise\<lparr>world := 3\<rparr>)"
  using try_make_all_raise [of factory_all_raise "()" "()" "Some default_ctor"]
  by (simp add: factory_all_raise_def register_three_registries All_less_Suc
      convert_result_def raising_def)

lemma try_make_loop_first_success:
  assumes "\<forall>i<length pre. isl (fst (snd (pre ! i) args (world_after (take i pre) args w)))"
    and "snd p args (world_after pre args w) = (Inr v, w')"
  shows "try_make_loop (pre @ p # post) args eptr w = (Inr v, w')"
  using assms
proof (induction pre arbitrary: eptr w)
  case Nil
  then show ?case by simp
next
  case (Cons q qs)
  from Cons.prems(1) have "isl (fst (snd q args w))" by fastforce
  then obtain e w1 where call: "snd q args w = (Inl e, w1)"
    by (cases "snd q args w"; cases "fst (snd q args w)") auto
  have tl: "\<forall>i<length qs. isl (fst (snd (qs ! i) args (world_after (take i qs) args w1)))"
  proof (intro allI impI)
    fix i assume "i < length qs"
    with Cons.prems(1)
    have "isl (fst (snd ((q # qs) ! Suc i) args (world_after (take (Suc i) (q # qs)) args w)))"
      by (metis Suc_less_eq length_Cons)
    then show "isl (fst (snd (qs ! i) args (world_after (take i qs) args w1)))"
      using call by simp
  qed
  from Cons.prems(2) call have "snd p args (world_after qs args w1) = (Inr v, w')" by simp
  from Cons.IH [OF tl this] call show ?case by simp
qed

lemma try_make_handle_loop_first_success:
  assumes "\<forall>i<length pre. \<forall>c.
      fst (snd (pre ! i) args (world_after (take i pre) args w)) \<noteq> Inr (Some c)"
    and "snd p args (world_after pre args w) = (Inr (Some c), w')"
  shows "try_make_handle_loop (pre @ p # post) args eptr w = (Inr (Some c), w')"
  using assms
proof (induction pre arbitrary: eptr w)
  case Nil
  then show ?case by simp
next
  case (Cons q qs)
  obtain r w1 where call: "snd q args w = (r, w1)"
    by (cases "snd q args w")
  from Cons.prems(1) have "\<forall>c. fst (snd q args w) \<noteq> Inr (Some c)" by fastforce
  with call have r: "\<forall>c. r \<noteq> Inr (Some c)" by simp
  have tl: "\<forall>i<length qs. \<forall>c.
      fst (snd (qs ! i) args (world_after (take i qs) args w1)) \<noteq> Inr (Some c)"
  proof (intro allI impI)
    fix i c assume "i < length qs"
    with Cons.prems(1)
    have "fst (snd ((q # qs) ! Suc i) args (world_after (take (Suc i) (q # qs)) args w))
        \<noteq> Inr (Some c)"
      by (metis Suc_less_eq length_Cons)
    then show "fst (snd (qs ! i) args (world_after (take i qs) args w1)) \<noteq> Inr (Some c)"
      using call by simp
  qed
  from Cons.prems(2) call
  have nxt: "snd p args (world_after qs args w1) = (Inr (Some c), w')" by simp
  show ?case
  proof (cases r)
    case (Inl e)
    with call Cons.IH [OF tl nxt, of "Some e"] show ?thesis by simp
  next
    case (Inr obj)
    with r have "obj = None" by (cases obj) auto
    with Inr call Cons.IH [OF tl nxt, of eptr] show ?thesis by simp
  qed
qed

lemma try_make_handle_first_success:
  assumes "reg = pre @ p # post"
    and "\<forall>i<length pre. \<forall>c.
      fst (snd (pre ! i) args (world_after (take i pre) args (world s))) \<noteq> Inr (Some c)"
    and "snd p args (world_after pre args (world s)) = (Inr (Some c), w')"
  shows "try_make_handle reg args s = (Inr (Some c), s\<lparr>world := w'\<rparr>)"
  unfolding try_make_handle_def assms(1)
  by (simp add: try_make_handle_loop_first_success [OF assms(2,3)])

text \<open>
  Claim C4, amended. The claim is that the producers are attempted in the order of their
  insertion, never returning the result of a producer inserted later. The code attempts
  the entries in the order of the vector, which is the order in which the ids were first
  registered: an id registered for the first time is appended, and an id registered
  again keeps its position and only has its producer replaced, so that a registry built
  from the empty one lists its ids by first assignment and holds under each the producer
  assigned last. In that order \<open>try_make\<close> returns the result of the first entry that
  does not throw, and \<open>try_make_ptr\<close>, \<open>try_make_shared\<close>, \<open>try_make_unique\<close> the
  handle of the first entry that returns a non-null handle. The entries after it are not
  called: the world is the one the successful call left.
\<close>

theorem try_make_vector_order:
  "(hash \<notin> fst ` set reg \<longrightarrow> registry_assign reg hash f = reg @ [(hash, f)]) \<and>
   (hash' \<notin> fst ` set before \<longrightarrow>
      registry_assign (before @ (hash', old) # after) hash' new = before @ (hash', new) # after) \<and>
   map fst (assign_all [] evs) = rev (remdups (rev (map fst evs))) \<and>
   map_of (assign_all [] evs) = map_of (rev evs) \<and>
   (g_registry_value s sg = pre @ p # post \<and>
    (\<forall>i<length pre. isl (fst (snd (pre ! i) args (world_after (take i pre) args (world s))))) \<and>
    snd p args (world_after pre args (world s)) = (Inr v, w')
    \<longrightarrow> try_make base_type_ctor sg args s = (Inr v, s\<lparr>world := w'\<rparr>)) \<and>
   (g_registry_ptr s sg = hpre @ hp # hpost \<and>
    (\<forall>i<length hpre. \<forall>c.
       fst (snd (hpre ! i) args (world_after (take i hpre) args (world s))) \<noteq> Inr (Some c)) \<and>
    snd hp args (world_after hpre args (world s)) = (Inr (Some obj), hw')
    \<longrightarrow> try_make_ptr sg args s = (Inr (Some obj), s\<lparr>world := hw'\<rparr>)) \<and>
   (g_registry_shared s sg = hpre @ hp # hpost \<and>
    (\<forall>i<length hpre. \<forall>c.
       fst (snd (hpre ! i) args (world_after (take i hpre) args (world s))) \<noteq> Inr (Some c)) \<and>
    snd hp args (world_after hpre args (world s)) = (Inr (Some obj), hw')
    \<longrightarrow> try_make_shared sg args s = (Inr (Some obj), s\<lparr>world := hw'\<rparr>)) \<and>
   (g_registry_unique s sg = hpre @ hp # hpost \<and>
    (\<forall>i<length hpre. \<forall>c.
       fst (snd (hpre ! i) args (world_after (take i hpre) args (world s))) \<noteq> Inr (Some c)) \<and>
    snd hp args (world_after hpre args (world s)) = (Inr (Some obj), hw')
    \<longrightarrow> try_make_unique sg args s = (Inr (Some obj), s\<lparr>world := hw'\<rparr>))"
proof (intro conjI impI)
  assume "hash \<notin> fst ` set reg"
  then show "registry_assign reg hash f = reg @ [(hash, f)]"
    by (rule registry_assign_new)
next
  assume "hash' \<notin> fst ` set before"
  then show "registry_assign (before @ (hash', old) # after) hash' new
      = before @ (hash', new) # after"
    by (rule registry_assign_existing)
next
  show "map fst (assign_all [] evs) = rev (remdups (rev (map fst evs)))"
    by (rule keys_assign_all)
next
  show "map_of (assign_all [] evs) = map_of (rev evs)"
    by (rule map_of_assign_all)
next
  assume a: "g_registry_value s sg = pre @ p # post \<and>
    (\<forall>i<length pre. isl (fst (snd (pre ! i) args (world_after (take i pre) args (world s))))) \<and>
    snd p args (world_after pre args (world s)) = (Inr v, w')"
  then have "try_make_loop (g_registry_value s sg) args None (world s) = (Inr v, w')"
    by (simp add: try_make_loop_first_success)
  then show "try_make base_type_ctor sg args s = (Inr v, s\<lparr>world := w'\<rparr>)"
    by (simp add: try_make_def)
next
  assume "g_registry_ptr s sg = hpre @ hp # hpost \<and>
    (\<forall>i<length hpre. \<forall>c.
       fst (snd (hpre ! i) args (world_after (take i hpre) args (world s))) \<noteq> Inr (Some c)) \<and>
    snd hp args (world_after hpre args (world s)) = (Inr (Some obj), hw')"
  then show "try_make_ptr sg args s = (Inr (Some obj), s\<lparr>world := hw'\<rparr>)"
    unfolding try_make_ptr_def by (blast intro: try_make_handle_first_success)
next
  assume "g_registry_shared s sg = hpre @ hp # hpost \<and>
    (\<forall>i<length hpre. \<forall>c.
       fst (snd (hpre ! i) args (world_after (take i hpre) args (world s))) \<noteq> Inr (Some c)) \<and>
    snd hp args (world_after hpre args (world s)) = (Inr (Some obj), hw')"
  then show "try_make_shared sg args s = (Inr (Some obj), s\<lparr>world := hw'\<rparr>)"
    unfolding try_make_shared_def by (blast intro: try_make_handle_first_success)
next
  assume "g_registry_unique s sg = hpre @ hp # hpost \<and>
    (\<forall>i<length hpre. \<forall>c.
       fst (snd (hpre ! i) args (world_after (take i hpre) args (world s))) \<noteq> Inr (Some c)) \<and>
    snd hp args (world_after hpre args (world s)) = (Inr (Some obj), hw')"
  then show "try_make_unique sg args s = (Inr (Some obj), s\<lparr>world := hw'\<rparr>)"
    unfolding try_make_unique_def by (blast intro: try_make_handle_first_success)
qed

text \<open>
  The producers \<open>P1\<close> (throws), \<open>P2\<close> (returns 2) and \<open>P3\<close> (returns 3), registered in
  that order under three ids: the result is that of \<open>P2\<close>, after two calls.
\<close>

theorem try_make_vector_order_witness:
  "registry_assign ([] :: (unit, nat, nat, nat) registry) 5 (returning 2) = [(5, returning 2)] \<and>
   registry_assign [(1, raising 1), (2, returning 20)] 1 (returning 30)
     = [(1, returning 30), (2, returning 20)] \<and>
   map fst (assign_all [] [(1, raising 1), (2, returning 20), (1, returning 30)]) = [1, 2] \<and>
   try_make (Some default_ctor) () () factory_fallback =
     (Inr 2, factory_fallback\<lparr>world := 2\<rparr>) \<and>
   try_make_ptr () () factory_fallback = (Inr (Some 2), factory_fallback\<lparr>world := 2\<rparr>) \<and>
   try_make_shared () () factory_fallback = (Inr (Some 2), factory_fallback\<lparr>world := 2\<rparr>) \<and>
   try_make_unique () () factory_fallback = (Inr (Some 2), factory_fallback\<lparr>world := 2\<rparr>)"
  using try_make_vector_order
    [where hash = 5 and reg = "[]" and f = "returning 2"
       and hash' = 1 and before = "[]" and old = "raising 1" and after = "[(2, returning 20)]"
       and new = "returning 30"
       and evs = "[(1, raising 1), (2, returning 20), (1, returning 30)]"
       and s = factory_fallback and sg = "()" and args = "()"
       and pre = "[(ex_hash ''P1'', convert_result id (raising 1))]"
       and p = "(ex_hash ''P2'', convert_result id (returning 2))"
       and post = "[(ex_hash ''P3'', convert_result id (returning 3))]"
       and v = 2 and w' = 2 and base_type_ctor = "Some default_ctor"
       and hpre = "[(ex_hash ''P1'', convert_result Some (raising 1))]"
       and hp = "(ex_hash ''P2'', convert_result Some (returning 2))"
       and hpost = "[(ex_hash ''P3'', convert_result Some (returning 3))]"
       and obj = 2 and hw' = 2]
  by (simp add: factory_fallback_def register_three_registries convert_result_def
      raising_def returning_def)

text \<open>
  After \<open>P1\<close> (throws), \<open>P2\<close> (returns 20) and then a producer returning 30 registered
  under the id of \<open>P1\<close>, the producer inserted last is the first entry of the vector:
  every \<open>try_make*\<close> returns its 30 after one call, although the producer returning 20
  was inserted before it.
\<close>

theorem try_make_reregistered_counterexample:
  "try_make (Some default_ctor) () () factory_reregistered =
     (Inr 30, factory_reregistered\<lparr>world := 1\<rparr>) \<and>
   try_make_ptr () () factory_reregistered =
     (Inr (Some 30), factory_reregistered\<lparr>world := 1\<rparr>) \<and>
   try_make_shared () () factory_reregistered =
     (Inr (Some 30), factory_reregistered\<lparr>world := 1\<rparr>) \<and>
   try_make_unique () () factory_reregistered =
     (Inr (Some 30), factory_reregistered\<lparr>world := 1\<rparr>)"
  by (simp add: try_make_def try_make_ptr_def try_make_shared_def try_make_unique_def
      try_make_handle_def factory_reregistered_registries convert_result_def returning_def)

lemma try_make_handle_loop_all_null:
  "\<forall>i<length reg. fst (snd (reg ! i) args (world_after (take i reg) args w)) = Inr None \<Longrightarrow>
   try_make_handle_loop reg args eptr w = (Inl eptr, world_after reg args w)"
proof (induction reg arbitrary: w)
  case Nil
  show ?case by simp
next
  case (Cons p ps)
  from Cons.prems have hd: "fst (snd p args w) = Inr None" by fastforce
  have tl: "\<forall>i<length ps.
      fst (snd (ps ! i) args (world_after (take i ps) args (snd (snd p args w)))) = Inr None"
  proof (intro allI impI)
    fix i assume "i < length ps"
    with Cons.prems
    have "fst (snd ((p # ps) ! Suc i) args (world_after (take (Suc i) (p # ps)) args w))
        = Inr None"
      by (metis Suc_less_eq length_Cons)
    then show "fst (snd (ps ! i) args (world_after (take i ps) args (snd (snd p args w))))
        = Inr None"
      by simp
  qed
  from hd Cons.IH [OF tl] show ?case by (cases "snd p args w") simp
qed

lemma try_make_handle_all_null:
  assumes "\<forall>i<length reg.
      fst (snd (reg ! i) args (world_after (take i reg) args (world s))) = Inr None"
  shows "try_make_handle reg args s = (Inr None, s\<lparr>world := world_after reg args (world s)\<rparr>)"
  by (simp add: try_make_handle_def try_make_handle_loop_all_null [OF assms])

text \<open>
  Claim C10. Over a registry that is not empty and whose producers all return a null
  handle without throwing, \<open>try_make_ptr\<close>, \<open>try_make_shared\<close> and
  \<open>try_make_unique\<close> return a null handle: nothing is thrown, every producer has been
  called once, and a null return is not kept as a failure.
\<close>

theorem try_make_handle_null:
  "(g_registry_ptr s sg \<noteq> [] \<and>
    (\<forall>i<length (g_registry_ptr s sg).
       fst (snd (g_registry_ptr s sg ! i) args
              (world_after (take i (g_registry_ptr s sg)) args (world s))) = Inr None)
    \<longrightarrow> try_make_ptr sg args s =
          (Inr None, s\<lparr>world := world_after (g_registry_ptr s sg) args (world s)\<rparr>)) \<and>
   (g_registry_shared s sg \<noteq> [] \<and>
    (\<forall>i<length (g_registry_shared s sg).
       fst (snd (g_registry_shared s sg ! i) args
              (world_after (take i (g_registry_shared s sg)) args (world s))) = Inr None)
    \<longrightarrow> try_make_shared sg args s =
          (Inr None, s\<lparr>world := world_after (g_registry_shared s sg) args (world s)\<rparr>)) \<and>
   (g_registry_unique s sg \<noteq> [] \<and>
    (\<forall>i<length (g_registry_unique s sg).
       fst (snd (g_registry_unique s sg ! i) args
              (world_after (take i (g_registry_unique s sg)) args (world s))) = Inr None)
    \<longrightarrow> try_make_unique sg args s =
          (Inr None, s\<lparr>world := world_after (g_registry_unique s sg) args (world s)\<rparr>))"
  by (simp add: try_make_ptr_def try_make_shared_def try_make_unique_def
      try_make_handle_all_null)

theorem try_make_handle_null_witness:
  "try_make_ptr () () factory_null = (Inr None, factory_null\<lparr>world := 2\<rparr>) \<and>
   try_make_shared () () factory_null = (Inr None, factory_null\<lparr>world := 2\<rparr>) \<and>
   try_make_unique () () factory_null = (Inr None, factory_null\<lparr>world := 2\<rparr>)"
  using try_make_handle_null [of factory_null "()" "()"]
  by (simp add: factory_null_def All_less_Suc returning_null_def)

section \<open>The ids of a registry stay distinct\<close>

text \<open>
  The empty factory has distinct ids, both registrations keep them distinct, and no
  instantiation writes a registry: the ids are distinct in every state the factory
  reaches.
\<close>

lemma unique_ids_initial: "unique_ids (initial_factory w)"
  by (simp add: unique_ids_def initial_factory_def)

lemma unique_ids_register_type:
  assumes "unique_ids s" and "register_type g_hash_function T sg key s = Some s'"
  shows "unique_ids s'"
  using assms
  by (auto simp: unique_ids_def register_type_def Let_def distinct_registry_assign
      split: if_splits option.splits)

lemma unique_ids_register_function:
  assumes "unique_ids s" and "register_function g_hash_function R sg key func s = Some s'"
  shows "unique_ids s'"
  using assms
  by (auto simp: unique_ids_def register_function_def register_function_impl_def Let_def
      distinct_registry_assign split: if_splits option.splits)

lemma find_and_call_registries:
  "\<exists>w'. snd (find_and_call reg hash args s) = s\<lparr>world := w'\<rparr>"
proof (cases "map_of reg hash")
  case None
  then have "snd (find_and_call reg hash args s) = s\<lparr>world := world s\<rparr>"
    by (simp add: find_and_call_map_of)
  then show ?thesis ..
next
  case (Some f)
  then have "snd (find_and_call reg hash args s) = s\<lparr>world := snd (f args (world s))\<rparr>"
    by (simp add: find_and_call_map_of)
  then show ?thesis ..
qed

lemma try_make_registries:
  "\<exists>w'. snd (try_make base_type_ctor sg args s) = s\<lparr>world := w'\<rparr>"
  by (auto simp: try_make_def split: prod.splits sum.splits option.splits)

lemma try_make_handle_registries:
  "\<exists>w'. snd (try_make_handle reg args s) = s\<lparr>world := w'\<rparr>"
  by (auto simp: try_make_handle_def split: prod.splits sum.splits option.splits)

lemma unique_ids_world: "unique_ids (s\<lparr>world := w\<rparr>) = unique_ids s"
  by (simp add: unique_ids_def)

lemma unique_ids_make:
  "unique_ids (snd (make g_hash_function sg key args s)) = unique_ids s"
  "unique_ids (snd (make_ptr g_hash_function sg key args s)) = unique_ids s"
  "unique_ids (snd (make_shared g_hash_function sg key args s)) = unique_ids s"
  "unique_ids (snd (make_unique g_hash_function sg key args s)) = unique_ids s"
  unfolding make_def make_ptr_def make_shared_def make_unique_def
  using find_and_call_registries unique_ids_world by metis+

lemma unique_ids_try_make:
  "unique_ids (snd (try_make base_type_ctor sg args s)) = unique_ids s"
  "unique_ids (snd (try_make_ptr sg args s)) = unique_ids s"
  "unique_ids (snd (try_make_shared sg args s)) = unique_ids s"
  "unique_ids (snd (try_make_unique sg args s)) = unique_ids s"
  unfolding try_make_ptr_def try_make_shared_def try_make_unique_def
  using try_make_registries try_make_handle_registries unique_ids_world by metis+

section \<open>Properties of registration\<close>

lemma register_type_derived:
  assumes "is_base_of T" and "to_base T = None"
  shows "register_type g_hash_function T sg key s =
    Some (s\<lparr>g_registry_ptr := (g_registry_ptr s)
               (sg := registry_assign (g_registry_ptr s sg) (g_hash_function key)
                        (convert_result Some (construct T sg))),
            g_registry_shared := (g_registry_shared s)
               (sg := registry_assign (g_registry_shared s sg) (g_hash_function key)
                        (convert_result Some (construct T sg))),
            g_registry_unique := (g_registry_unique s)
               (sg := registry_assign (g_registry_unique s sg) (g_hash_function key)
                        (convert_result Some (construct T sg)))\<rparr>)"
  using assms by (simp add: register_type_def Let_def)

lemma register_type_convertible:
  assumes "to_base T = Some conv"
  shows "register_type g_hash_function T sg key s =
    Some (s\<lparr>g_registry_value := (g_registry_value s)
               (sg := registry_assign (g_registry_value s sg) (g_hash_function key)
                        (convert_result conv (construct T sg)))\<rparr>)"
  using assms by (simp add: register_type_def Let_def)

lemma register_function_value:
  assumes "rt_to_base R = Some conv"
  shows "register_function g_hash_function R sg key func s =
    Some (s\<lparr>g_registry_value := (g_registry_value s)
               (sg := registry_assign (g_registry_value s sg) (g_hash_function key)
                        (convert_result conv func))\<rparr>)"
  using assms by (simp add: register_function_def register_function_impl_def Let_def)

text \<open>What registering a derived, non-convertible class does to the state.\<close>

lemma register_type_derived_effect:
  assumes "is_base_of T" and "to_base T = None"
  shows "\<exists>s'. register_type g_hash_function T sg key s = Some s' \<and>
     g_registry_value s' = g_registry_value s \<and> world s' = world s \<and>
     (\<forall>sg'. sg' \<noteq> sg \<longrightarrow> g_registry_ptr s' sg' = g_registry_ptr s sg' \<and>
        g_registry_shared s' sg' = g_registry_shared s sg' \<and>
        g_registry_unique s' sg' = g_registry_unique s sg') \<and>
     g_registry_ptr s' sg = registry_assign (g_registry_ptr s sg) (g_hash_function key)
                              (convert_result Some (construct T sg)) \<and>
     g_registry_shared s' sg = registry_assign (g_registry_shared s sg) (g_hash_function key)
                              (convert_result Some (construct T sg)) \<and>
     g_registry_unique s' sg = registry_assign (g_registry_unique s sg) (g_hash_function key)
                              (convert_result Some (construct T sg)) \<and>
     make_ptr g_hash_function sg key args s' =
       (fst (convert_result Some (construct T sg) args (world s)),
        s'\<lparr>world := snd (construct T sg args (world s))\<rparr>) \<and>
     make_shared g_hash_function sg key args s' =
       (fst (convert_result Some (construct T sg) args (world s)),
        s'\<lparr>world := snd (construct T sg args (world s))\<rparr>) \<and>
     make_unique g_hash_function sg key args s' =
       (fst (convert_result Some (construct T sg) args (world s)),
        s'\<lparr>world := snd (construct T sg args (world s))\<rparr>) \<and>
     fst (make g_hash_function sg key args s') = fst (make g_hash_function sg key args s) \<and>
     (g_hash_function key \<notin> fst ` set (g_registry_value s sg) \<longrightarrow>
        make g_hash_function sg key args s' = (Inl (runtime_error ''Registry not found''), s'))"
proof -
  let ?f = "convert_result Some (construct T sg)"
  let ?h = "g_hash_function key"
  let ?s' = "s\<lparr>g_registry_ptr := (g_registry_ptr s)
                 (sg := registry_assign (g_registry_ptr s sg) ?h ?f),
               g_registry_shared := (g_registry_shared s)
                 (sg := registry_assign (g_registry_shared s sg) ?h ?f),
               g_registry_unique := (g_registry_unique s)
                 (sg := registry_assign (g_registry_unique s sg) ?h ?f)\<rparr>"
  have w: "snd (?f args (world s)) = snd (construct T sg args (world s))"
    by (rule snd_convert_result)
  have reg: "register_type g_hash_function T sg key s = Some ?s'"
    by (rule register_type_derived [OF assms])
  have v: "g_registry_value ?s' = g_registry_value s" and ws: "world ?s' = world s"
    by simp_all
  have others: "\<forall>sg'. sg' \<noteq> sg \<longrightarrow> g_registry_ptr ?s' sg' = g_registry_ptr s sg' \<and>
        g_registry_shared ?s' sg' = g_registry_shared s sg' \<and>
        g_registry_unique ?s' sg' = g_registry_unique s sg'"
    by simp
  have p: "g_registry_ptr ?s' sg = registry_assign (g_registry_ptr s sg) ?h ?f"
    and sh: "g_registry_shared ?s' sg = registry_assign (g_registry_shared s sg) ?h ?f"
    and u: "g_registry_unique ?s' sg = registry_assign (g_registry_unique s sg) ?h ?f"
    by simp_all
  have mp: "make_ptr g_hash_function sg key args ?s' =
       (fst (?f args (world s)), ?s'\<lparr>world := snd (construct T sg args (world s))\<rparr>)"
    unfolding make_ptr_def p find_and_call_registry_assign ws w ..
  have ms: "make_shared g_hash_function sg key args ?s' =
       (fst (?f args (world s)), ?s'\<lparr>world := snd (construct T sg args (world s))\<rparr>)"
    unfolding make_shared_def sh find_and_call_registry_assign ws w ..
  have mu: "make_unique g_hash_function sg key args ?s' =
       (fst (?f args (world s)), ?s'\<lparr>world := snd (construct T sg args (world s))\<rparr>)"
    unfolding make_unique_def u find_and_call_registry_assign ws w ..
  have mv: "fst (make g_hash_function sg key args ?s') = fst (make g_hash_function sg key args s)"
    unfolding make_def v by (rule find_and_call_world_only) (rule ws)
  have miss: "g_hash_function key \<notin> fst ` set (g_registry_value s sg) \<longrightarrow>
        make g_hash_function sg key args ?s' = (Inl (runtime_error ''Registry not found''), ?s')"
    unfolding make_def v using find_and_call_miss by fast
  from reg v ws others p sh u mp ms mu mv miss show ?thesis
    by blast
qed

text \<open>Each \<open>make*\<close> reads the registry of its own return type only.\<close>

lemma make_reads_own_registry:
  "fst (make g_hash_function sg key args
     (s\<lparr>g_registry_ptr := p, g_registry_shared := q, g_registry_unique := r\<rparr>))
     = fst (make g_hash_function sg key args s)"
  "fst (make_ptr g_hash_function sg key args
     (s\<lparr>g_registry_value := v, g_registry_shared := q, g_registry_unique := r\<rparr>))
     = fst (make_ptr g_hash_function sg key args s)"
  "fst (make_shared g_hash_function sg key args
     (s\<lparr>g_registry_value := v, g_registry_ptr := p, g_registry_unique := r\<rparr>))
     = fst (make_shared g_hash_function sg key args s)"
  "fst (make_unique g_hash_function sg key args
     (s\<lparr>g_registry_value := v, g_registry_ptr := p, g_registry_shared := q\<rparr>))
     = fst (make_unique g_hash_function sg key args s)"
  by (simp_all add: make_def make_ptr_def make_shared_def make_unique_def
      find_and_call_map_of split: option.splits)

text \<open>
  Claim C6. For a class derived from \<open>base_type\<close> and not convertible to it,
  \<open>register_type\<close> succeeds and writes the entry for the key's hash into the registries
  of \<open>base_type*\<close>, \<open>std::shared_ptr<base_type>\<close> and \<open>std::unique_ptr<base_type>\<close>
  for the given argument list, and into nothing else: the registry of \<open>base_type\<close>,
  the other argument lists and the world are as before. Afterwards \<open>make_ptr\<close>,
  \<open>make_shared\<close> and \<open>make_unique\<close> under that key return what the class's
  constructor builds, while \<open>make\<close> under that key does what it did before, so it still
  throws \<open>"Registry not found"\<close> when the key had no \<open>base_type\<close> entry. In general
  the outcome of a \<open>make*\<close> does not depend on the registries of the other three return
  types.
\<close>

theorem register_type_shape_isolation:
  assumes "is_base_of T" and "to_base T = None"
  shows "(\<exists>s'. register_type g_hash_function T sg key s = Some s' \<and>
     g_registry_value s' = g_registry_value s \<and> world s' = world s \<and>
     (\<forall>sg'. sg' \<noteq> sg \<longrightarrow> g_registry_ptr s' sg' = g_registry_ptr s sg' \<and>
        g_registry_shared s' sg' = g_registry_shared s sg' \<and>
        g_registry_unique s' sg' = g_registry_unique s sg') \<and>
     g_registry_ptr s' sg = registry_assign (g_registry_ptr s sg) (g_hash_function key)
                              (convert_result Some (construct T sg)) \<and>
     g_registry_shared s' sg = registry_assign (g_registry_shared s sg) (g_hash_function key)
                              (convert_result Some (construct T sg)) \<and>
     g_registry_unique s' sg = registry_assign (g_registry_unique s sg) (g_hash_function key)
                              (convert_result Some (construct T sg)) \<and>
     make_ptr g_hash_function sg key args s' =
       (fst (convert_result Some (construct T sg) args (world s)),
        s'\<lparr>world := snd (construct T sg args (world s))\<rparr>) \<and>
     make_shared g_hash_function sg key args s' =
       (fst (convert_result Some (construct T sg) args (world s)),
        s'\<lparr>world := snd (construct T sg args (world s))\<rparr>) \<and>
     make_unique g_hash_function sg key args s' =
       (fst (convert_result Some (construct T sg) args (world s)),
        s'\<lparr>world := snd (construct T sg args (world s))\<rparr>) \<and>
     fst (make g_hash_function sg key args s') = fst (make g_hash_function sg key args s) \<and>
     (g_hash_function key \<notin> fst ` set (g_registry_value s sg) \<longrightarrow>
        make g_hash_function sg key args s' = (Inl (runtime_error ''Registry not found''), s'))) \<and>
   fst (make g_hash_function sg key args
     (s\<lparr>g_registry_ptr := p, g_registry_shared := q, g_registry_unique := r\<rparr>))
     = fst (make g_hash_function sg key args s) \<and>
   fst (make_ptr g_hash_function sg key args
     (s\<lparr>g_registry_value := v, g_registry_shared := q, g_registry_unique := r\<rparr>))
     = fst (make_ptr g_hash_function sg key args s) \<and>
   fst (make_shared g_hash_function sg key args
     (s\<lparr>g_registry_value := v, g_registry_ptr := p, g_registry_unique := r\<rparr>))
     = fst (make_shared g_hash_function sg key args s) \<and>
   fst (make_unique g_hash_function sg key args
     (s\<lparr>g_registry_value := v, g_registry_ptr := p, g_registry_shared := q\<rparr>))
     = fst (make_unique g_hash_function sg key args s)"
  by (intro conjI register_type_derived_effect [OF assms] make_reads_own_registry)

theorem register_type_shape_isolation_witness:
  "is_base_of ConcreteClassA \<and> to_base ConcreteClassA = None \<and>
   register_type ex_hash ConcreteClassA () ''ClassA'' (initial_factory 0) = Some factory_A \<and>
   g_registry_value factory_A = (\<lambda>sg. []) \<and>
   make_ptr ex_hash () ''ClassA'' () factory_A = (Inr (Some 42), factory_A\<lparr>world := 1\<rparr>) \<and>
   make_shared ex_hash () ''ClassA'' () factory_A = (Inr (Some 42), factory_A\<lparr>world := 1\<rparr>) \<and>
   make_unique ex_hash () ''ClassA'' () factory_A = (Inr (Some 42), factory_A\<lparr>world := 1\<rparr>) \<and>
   make ex_hash () ''ClassA'' () factory_A = (Inl (runtime_error ''Registry not found''), factory_A)"
proof -
  have d: "is_base_of ConcreteClassA" and c: "to_base ConcreteClassA = None"
    by (simp_all add: ConcreteClassA_def derived_type_def)
  have e: "g_hash_function key \<notin> fst ` set (g_registry_value (initial_factory 0 :: ex_factory) ())"
    for g_hash_function :: "string \<Rightarrow> size_t" and key
    by (simp add: initial_factory_def)
  from register_type_shape_isolation
    [OF d c, of ex_hash "()" "''ClassA''" "initial_factory 0" "()"]
  obtain s' where r: "register_type ex_hash ConcreteClassA () ''ClassA'' (initial_factory 0) = Some s'"
    and v: "g_registry_value s' = g_registry_value (initial_factory 0 :: ex_factory)"
    and mp: "make_ptr ex_hash () ''ClassA'' () s' =
       (fst (convert_result Some (construct ConcreteClassA ()) () (world (initial_factory 0 :: ex_factory))),
        s'\<lparr>world := snd (construct ConcreteClassA () () (world (initial_factory 0 :: ex_factory)))\<rparr>)"
    and ms: "make_shared ex_hash () ''ClassA'' () s' =
       (fst (convert_result Some (construct ConcreteClassA ()) () (world (initial_factory 0 :: ex_factory))),
        s'\<lparr>world := snd (construct ConcreteClassA () () (world (initial_factory 0 :: ex_factory)))\<rparr>)"
    and mu: "make_unique ex_hash () ''ClassA'' () s' =
       (fst (convert_result Some (construct ConcreteClassA ()) () (world (initial_factory 0 :: ex_factory))),
        s'\<lparr>world := snd (construct ConcreteClassA () () (world (initial_factory 0 :: ex_factory)))\<rparr>)"
    and mv: "ex_hash ''ClassA'' \<notin> fst ` set (g_registry_value (initial_factory 0 :: ex_factory) ()) \<longrightarrow>
       make ex_hash () ''ClassA'' () s' = (Inl (runtime_error ''Registry not found''), s')"
    by blast
  from r have s': "factory_A = s'"
    by (simp add: factory_A_def or_initial_def)
  from d c r v mp ms mu mv e show ?thesis
    unfolding s'
    by (simp add: initial_factory_def ConcreteClassA_def derived_type_def convert_result_def
        returning_def)
qed

subsection \<open>Registering under a key that is already registered\<close>

lemma register_function_ptr:
  assumes "rt_is_base_of R" and "rt_to_base R = None" and "rt_to_ptr R = Some conv"
  shows "register_function g_hash_function R sg key func s =
    Some (s\<lparr>g_registry_ptr := (g_registry_ptr s)
               (sg := registry_assign (g_registry_ptr s sg) (g_hash_function key)
                        (convert_result conv func))\<rparr>)"
  using assms by (simp add: register_function_def register_function_impl_def Let_def)

lemma register_function_shared:
  assumes "rt_is_base_of R" and "rt_to_base R = None" and "rt_to_ptr R = None"
    and "rt_shared_of_derived R = Some conv"
  shows "register_function g_hash_function R sg key func s =
    Some (s\<lparr>g_registry_shared := (g_registry_shared s)
               (sg := registry_assign (g_registry_shared s sg) (g_hash_function key)
                        (convert_result conv func))\<rparr>)"
  using assms by (simp add: register_function_def register_function_impl_def Let_def)

lemma register_function_unique:
  assumes "rt_is_base_of R" and "rt_to_base R = None" and "rt_to_ptr R = None"
    and "rt_shared_of_derived R = None" and "rt_unique_of_derived R = Some conv"
  shows "register_function g_hash_function R sg key func s =
    Some (s\<lparr>g_registry_unique := (g_registry_unique s)
               (sg := registry_assign (g_registry_unique s sg) (g_hash_function key)
                        (convert_result conv func))\<rparr>)"
  using assms by (simp add: register_function_def register_function_impl_def Let_def)

lemma register_type_world:
  "register_type g_hash_function T sg key s = Some s' \<Longrightarrow> world s' = world s"
  by (auto simp: register_type_def Let_def split: if_splits option.splits)

lemma register_function_world:
  "register_function g_hash_function R sg key func s = Some s' \<Longrightarrow> world s' = world s"
  by (auto simp: register_function_def register_function_impl_def Let_def
      split: if_splits option.splits)

text \<open>
  What a registration into one registry does, from any state: the \<open>make*\<close> of that
  registry then calls the producer just registered, and a registry with distinct ids
  holds one entry for the key's hash.
\<close>

lemma overwrite_value_function:
  assumes "rt_to_base R = Some c"
  shows "\<exists>s2. register_function g_hash_function R sg key B s1 = Some s2 \<and>
           make g_hash_function sg key args s2 =
             (fst (convert_result c B args (world s1)), s2\<lparr>world := snd (B args (world s1))\<rparr>) \<and>
           (distinct (map fst (g_registry_value s1 sg)) \<longrightarrow>
              length (filter (\<lambda>p. fst p = g_hash_function key) (g_registry_value s2 sg)) = 1)"
proof -
  let ?h = "g_hash_function key"
  let ?s2 = "s1\<lparr>g_registry_value := (g_registry_value s1)
               (sg := registry_assign (g_registry_value s1 sg) ?h (convert_result c B))\<rparr>"
  have r: "register_function g_hash_function R sg key B s1 = Some ?s2"
    by (rule register_function_value [OF assms])
  have v: "g_registry_value ?s2 sg = registry_assign (g_registry_value s1 sg) ?h (convert_result c B)"
    and w: "world ?s2 = world s1"
    by simp_all
  have m: "make g_hash_function sg key args ?s2 =
      (fst (convert_result c B args (world s1)), ?s2\<lparr>world := snd (B args (world s1))\<rparr>)"
    unfolding make_def v find_and_call_registry_assign w snd_convert_result ..
  have n: "distinct (map fst (g_registry_value s1 sg)) \<longrightarrow>
      length (filter (\<lambda>p. fst p = ?h) (g_registry_value ?s2 sg)) = 1"
    unfolding v using count_registry_assign by fast
  from r m n show ?thesis by blast
qed

lemma overwrite_ptr_function:
  assumes "rt_is_base_of R" and "rt_to_base R = None" and "rt_to_ptr R = Some c"
  shows "\<exists>s2. register_function g_hash_function R sg key B s1 = Some s2 \<and>
           make_ptr g_hash_function sg key args s2 =
             (fst (convert_result c B args (world s1)), s2\<lparr>world := snd (B args (world s1))\<rparr>) \<and>
           (distinct (map fst (g_registry_ptr s1 sg)) \<longrightarrow>
              length (filter (\<lambda>p. fst p = g_hash_function key) (g_registry_ptr s2 sg)) = 1)"
proof -
  let ?h = "g_hash_function key"
  let ?s2 = "s1\<lparr>g_registry_ptr := (g_registry_ptr s1)
               (sg := registry_assign (g_registry_ptr s1 sg) ?h (convert_result c B))\<rparr>"
  have r: "register_function g_hash_function R sg key B s1 = Some ?s2"
    by (rule register_function_ptr [OF assms])
  have v: "g_registry_ptr ?s2 sg = registry_assign (g_registry_ptr s1 sg) ?h (convert_result c B)"
    and w: "world ?s2 = world s1"
    by simp_all
  have m: "make_ptr g_hash_function sg key args ?s2 =
      (fst (convert_result c B args (world s1)), ?s2\<lparr>world := snd (B args (world s1))\<rparr>)"
    unfolding make_ptr_def v find_and_call_registry_assign w snd_convert_result ..
  have n: "distinct (map fst (g_registry_ptr s1 sg)) \<longrightarrow>
      length (filter (\<lambda>p. fst p = ?h) (g_registry_ptr ?s2 sg)) = 1"
    unfolding v using count_registry_assign by fast
  from r m n show ?thesis by blast
qed

lemma overwrite_shared_function:
  assumes "rt_is_base_of R" and "rt_to_base R = None" and "rt_to_ptr R = None"
    and "rt_shared_of_derived R = Some c"
  shows "\<exists>s2. register_function g_hash_function R sg key B s1 = Some s2 \<and>
           make_shared g_hash_function sg key args s2 =
             (fst (convert_result c B args (world s1)), s2\<lparr>world := snd (B args (world s1))\<rparr>) \<and>
           (distinct (map fst (g_registry_shared s1 sg)) \<longrightarrow>
              length (filter (\<lambda>p. fst p = g_hash_function key) (g_registry_shared s2 sg)) = 1)"
proof -
  let ?h = "g_hash_function key"
  let ?s2 = "s1\<lparr>g_registry_shared := (g_registry_shared s1)
               (sg := registry_assign (g_registry_shared s1 sg) ?h (convert_result c B))\<rparr>"
  have r: "register_function g_hash_function R sg key B s1 = Some ?s2"
    by (rule register_function_shared [OF assms])
  have v: "g_registry_shared ?s2 sg =
      registry_assign (g_registry_shared s1 sg) ?h (convert_result c B)"
    and w: "world ?s2 = world s1"
    by simp_all
  have m: "make_shared g_hash_function sg key args ?s2 =
      (fst (convert_result c B args (world s1)), ?s2\<lparr>world := snd (B args (world s1))\<rparr>)"
    unfolding make_shared_def v find_and_call_registry_assign w snd_convert_result ..
  have n: "distinct (map fst (g_registry_shared s1 sg)) \<longrightarrow>
      length (filter (\<lambda>p. fst p = ?h) (g_registry_shared ?s2 sg)) = 1"
    unfolding v using count_registry_assign by fast
  from r m n show ?thesis by blast
qed

lemma overwrite_unique_function:
  assumes "rt_is_base_of R" and "rt_to_base R = None" and "rt_to_ptr R = None"
    and "rt_shared_of_derived R = None" and "rt_unique_of_derived R = Some c"
  shows "\<exists>s2. register_function g_hash_function R sg key B s1 = Some s2 \<and>
           make_unique g_hash_function sg key args s2 =
             (fst (convert_result c B args (world s1)), s2\<lparr>world := snd (B args (world s1))\<rparr>) \<and>
           (distinct (map fst (g_registry_unique s1 sg)) \<longrightarrow>
              length (filter (\<lambda>p. fst p = g_hash_function key) (g_registry_unique s2 sg)) = 1)"
proof -
  let ?h = "g_hash_function key"
  let ?s2 = "s1\<lparr>g_registry_unique := (g_registry_unique s1)
               (sg := registry_assign (g_registry_unique s1 sg) ?h (convert_result c B))\<rparr>"
  have r: "register_function g_hash_function R sg key B s1 = Some ?s2"
    by (rule register_function_unique [OF assms])
  have v: "g_registry_unique ?s2 sg =
      registry_assign (g_registry_unique s1 sg) ?h (convert_result c B)"
    and w: "world ?s2 = world s1"
    by simp_all
  have m: "make_unique g_hash_function sg key args ?s2 =
      (fst (convert_result c B args (world s1)), ?s2\<lparr>world := snd (B args (world s1))\<rparr>)"
    unfolding make_unique_def v find_and_call_registry_assign w snd_convert_result ..
  have n: "distinct (map fst (g_registry_unique s1 sg)) \<longrightarrow>
      length (filter (\<lambda>p. fst p = ?h) (g_registry_unique ?s2 sg)) = 1"
    unfolding v using count_registry_assign by fast
  from r m n show ?thesis by blast
qed

lemma overwrite_value_type:
  assumes "to_base T = Some c"
  shows "\<exists>s2. register_type g_hash_function T sg key s1 = Some s2 \<and>
           make g_hash_function sg key args s2 =
             (fst (convert_result c (construct T sg) args (world s1)),
              s2\<lparr>world := snd (construct T sg args (world s1))\<rparr>) \<and>
           (distinct (map fst (g_registry_value s1 sg)) \<longrightarrow>
              length (filter (\<lambda>p. fst p = g_hash_function key) (g_registry_value s2 sg)) = 1)"
proof -
  let ?h = "g_hash_function key"
  let ?f = "convert_result c (construct T sg)"
  let ?s2 = "s1\<lparr>g_registry_value := (g_registry_value s1)
               (sg := registry_assign (g_registry_value s1 sg) ?h ?f)\<rparr>"
  have r: "register_type g_hash_function T sg key s1 = Some ?s2"
    by (rule register_type_convertible [OF assms])
  have v: "g_registry_value ?s2 sg = registry_assign (g_registry_value s1 sg) ?h ?f"
    and w: "world ?s2 = world s1"
    by simp_all
  have m: "make g_hash_function sg key args ?s2 =
      (fst (?f args (world s1)), ?s2\<lparr>world := snd (construct T sg args (world s1))\<rparr>)"
    unfolding make_def v find_and_call_registry_assign w snd_convert_result ..
  have n: "distinct (map fst (g_registry_value s1 sg)) \<longrightarrow>
      length (filter (\<lambda>p. fst p = ?h) (g_registry_value ?s2 sg)) = 1"
    unfolding v using count_registry_assign by fast
  from r m n show ?thesis by blast
qed

lemma overwrite_handles_type:
  assumes "is_base_of T" and "to_base T = None"
  shows "\<exists>s2. register_type g_hash_function T sg key s1 = Some s2 \<and>
           make_ptr g_hash_function sg key args s2 =
             (fst (convert_result Some (construct T sg) args (world s1)),
              s2\<lparr>world := snd (construct T sg args (world s1))\<rparr>) \<and>
           make_shared g_hash_function sg key args s2 =
             (fst (convert_result Some (construct T sg) args (world s1)),
              s2\<lparr>world := snd (construct T sg args (world s1))\<rparr>) \<and>
           make_unique g_hash_function sg key args s2 =
             (fst (convert_result Some (construct T sg) args (world s1)),
              s2\<lparr>world := snd (construct T sg args (world s1))\<rparr>) \<and>
           (distinct (map fst (g_registry_ptr s1 sg)) \<longrightarrow>
              length (filter (\<lambda>p. fst p = g_hash_function key) (g_registry_ptr s2 sg)) = 1) \<and>
           (distinct (map fst (g_registry_shared s1 sg)) \<longrightarrow>
              length (filter (\<lambda>p. fst p = g_hash_function key) (g_registry_shared s2 sg)) = 1) \<and>
           (distinct (map fst (g_registry_unique s1 sg)) \<longrightarrow>
              length (filter (\<lambda>p. fst p = g_hash_function key) (g_registry_unique s2 sg)) = 1)"
proof -
  let ?h = "g_hash_function key"
  let ?f = "convert_result Some (construct T sg)"
  obtain s2 where r: "register_type g_hash_function T sg key s1 = Some s2"
    and p: "g_registry_ptr s2 sg = registry_assign (g_registry_ptr s1 sg) ?h ?f"
    and sh: "g_registry_shared s2 sg = registry_assign (g_registry_shared s1 sg) ?h ?f"
    and u: "g_registry_unique s2 sg = registry_assign (g_registry_unique s1 sg) ?h ?f"
    and mp: "make_ptr g_hash_function sg key args s2 =
       (fst (?f args (world s1)), s2\<lparr>world := snd (construct T sg args (world s1))\<rparr>)"
    and ms: "make_shared g_hash_function sg key args s2 =
       (fst (?f args (world s1)), s2\<lparr>world := snd (construct T sg args (world s1))\<rparr>)"
    and mu: "make_unique g_hash_function sg key args s2 =
       (fst (?f args (world s1)), s2\<lparr>world := snd (construct T sg args (world s1))\<rparr>)"
    using register_type_derived_effect [OF assms, of g_hash_function sg key s1 args] by blast
  have n: "distinct (map fst (g_registry_ptr s1 sg)) \<longrightarrow>
      length (filter (\<lambda>p. fst p = ?h) (g_registry_ptr s2 sg)) = 1"
    "distinct (map fst (g_registry_shared s1 sg)) \<longrightarrow>
      length (filter (\<lambda>p. fst p = ?h) (g_registry_shared s2 sg)) = 1"
    "distinct (map fst (g_registry_unique s1 sg)) \<longrightarrow>
      length (filter (\<lambda>p. fst p = ?h) (g_registry_unique s2 sg)) = 1"
    unfolding p sh u using count_registry_assign by fast+
  from r mp ms mu n show ?thesis by blast
qed

text \<open>
  Claim C2. Let \<open>A\<close> be registered under a key by either registration function, in a
  factory whose ids are distinct, and then \<open>B\<close> under the same key, by either
  registration function and into any of the four registries: as a callable into the
  registry its return type selects, as a class convertible to \<open>base_type\<close>, or as a
  derived class into the three handle registries. The registration of \<open>B\<close> succeeds
  (registration reports nothing), the \<open>make*\<close> of the registry \<open>B\<close> went into then
  calls \<open>B\<close> under that key, whatever \<open>A\<close> was, and that registry holds exactly one
  entry for the key's hash.
\<close>

theorem reregistration_overwrites:
  assumes "unique_ids s"
    and "register_function g_hash_function RA sg key A s = Some s1 \<or>
         register_type g_hash_function TA sg key s = Some s1"
  shows "world s1 = world s \<and>
   (rt_to_base RBv = Some cv \<longrightarrow>
     (\<exists>s2. register_function g_hash_function RBv sg key Bv s1 = Some s2 \<and>
        make g_hash_function sg key args s2 =
          (fst (convert_result cv Bv args (world s1)), s2\<lparr>world := snd (Bv args (world s1))\<rparr>) \<and>
        length (filter (\<lambda>p. fst p = g_hash_function key) (g_registry_value s2 sg)) = 1)) \<and>
   (rt_is_base_of RBp \<and> rt_to_base RBp = None \<and> rt_to_ptr RBp = Some cp \<longrightarrow>
     (\<exists>s2. register_function g_hash_function RBp sg key Bp s1 = Some s2 \<and>
        make_ptr g_hash_function sg key args s2 =
          (fst (convert_result cp Bp args (world s1)), s2\<lparr>world := snd (Bp args (world s1))\<rparr>) \<and>
        length (filter (\<lambda>p. fst p = g_hash_function key) (g_registry_ptr s2 sg)) = 1)) \<and>
   (rt_is_base_of RBs \<and> rt_to_base RBs = None \<and> rt_to_ptr RBs = None \<and>
    rt_shared_of_derived RBs = Some cs \<longrightarrow>
     (\<exists>s2. register_function g_hash_function RBs sg key Bs s1 = Some s2 \<and>
        make_shared g_hash_function sg key args s2 =
          (fst (convert_result cs Bs args (world s1)), s2\<lparr>world := snd (Bs args (world s1))\<rparr>) \<and>
        length (filter (\<lambda>p. fst p = g_hash_function key) (g_registry_shared s2 sg)) = 1)) \<and>
   (rt_is_base_of RBu \<and> rt_to_base RBu = None \<and> rt_to_ptr RBu = None \<and>
    rt_shared_of_derived RBu = None \<and> rt_unique_of_derived RBu = Some cu \<longrightarrow>
     (\<exists>s2. register_function g_hash_function RBu sg key Bu s1 = Some s2 \<and>
        make_unique g_hash_function sg key args s2 =
          (fst (convert_result cu Bu args (world s1)), s2\<lparr>world := snd (Bu args (world s1))\<rparr>) \<and>
        length (filter (\<lambda>p. fst p = g_hash_function key) (g_registry_unique s2 sg)) = 1)) \<and>
   (to_base TB = Some tb \<longrightarrow>
     (\<exists>s2. register_type g_hash_function TB sg key s1 = Some s2 \<and>
        make g_hash_function sg key args s2 =
          (fst (convert_result tb (construct TB sg) args (world s1)),
           s2\<lparr>world := snd (construct TB sg args (world s1))\<rparr>) \<and>
        length (filter (\<lambda>p. fst p = g_hash_function key) (g_registry_value s2 sg)) = 1)) \<and>
   (is_base_of DB \<and> to_base DB = None \<longrightarrow>
     (\<exists>s2. register_type g_hash_function DB sg key s1 = Some s2 \<and>
        make_ptr g_hash_function sg key args s2 =
          (fst (convert_result Some (construct DB sg) args (world s1)),
           s2\<lparr>world := snd (construct DB sg args (world s1))\<rparr>) \<and>
        make_shared g_hash_function sg key args s2 =
          (fst (convert_result Some (construct DB sg) args (world s1)),
           s2\<lparr>world := snd (construct DB sg args (world s1))\<rparr>) \<and>
        make_unique g_hash_function sg key args s2 =
          (fst (convert_result Some (construct DB sg) args (world s1)),
           s2\<lparr>world := snd (construct DB sg args (world s1))\<rparr>) \<and>
        length (filter (\<lambda>p. fst p = g_hash_function key) (g_registry_ptr s2 sg)) = 1 \<and>
        length (filter (\<lambda>p. fst p = g_hash_function key) (g_registry_shared s2 sg)) = 1 \<and>
        length (filter (\<lambda>p. fst p = g_hash_function key) (g_registry_unique s2 sg)) = 1))"
proof -
  from assms have "unique_ids s1"
    by (blast intro: unique_ids_register_type unique_ids_register_function)
  then have d: "distinct (map fst (g_registry_value s1 sg))"
    "distinct (map fst (g_registry_ptr s1 sg))"
    "distinct (map fst (g_registry_shared s1 sg))"
    "distinct (map fst (g_registry_unique s1 sg))"
    by (simp_all add: unique_ids_def)
  from assms(2) have w: "world s1 = world s"
    by (blast dest: register_type_world register_function_world)
  have vf: "\<exists>s2. register_function g_hash_function RBv sg key Bv s1 = Some s2 \<and>
        make g_hash_function sg key args s2 =
          (fst (convert_result cv Bv args (world s1)), s2\<lparr>world := snd (Bv args (world s1))\<rparr>) \<and>
        length (filter (\<lambda>p. fst p = g_hash_function key) (g_registry_value s2 sg)) = 1"
    if "rt_to_base RBv = Some cv"
    using overwrite_value_function [OF that, of g_hash_function sg key Bv s1 args] d(1)
    by blast
  have pf: "\<exists>s2. register_function g_hash_function RBp sg key Bp s1 = Some s2 \<and>
        make_ptr g_hash_function sg key args s2 =
          (fst (convert_result cp Bp args (world s1)), s2\<lparr>world := snd (Bp args (world s1))\<rparr>) \<and>
        length (filter (\<lambda>p. fst p = g_hash_function key) (g_registry_ptr s2 sg)) = 1"
    if "rt_is_base_of RBp \<and> rt_to_base RBp = None \<and> rt_to_ptr RBp = Some cp"
  proof -
    from that have "rt_is_base_of RBp" "rt_to_base RBp = None" "rt_to_ptr RBp = Some cp"
      by simp_all
    from overwrite_ptr_function [OF this, of g_hash_function sg key Bp s1 args] d(2)
    show ?thesis by blast
  qed
  have sf: "\<exists>s2. register_function g_hash_function RBs sg key Bs s1 = Some s2 \<and>
        make_shared g_hash_function sg key args s2 =
          (fst (convert_result cs Bs args (world s1)), s2\<lparr>world := snd (Bs args (world s1))\<rparr>) \<and>
        length (filter (\<lambda>p. fst p = g_hash_function key) (g_registry_shared s2 sg)) = 1"
    if "rt_is_base_of RBs \<and> rt_to_base RBs = None \<and> rt_to_ptr RBs = None \<and>
        rt_shared_of_derived RBs = Some cs"
  proof -
    from that have "rt_is_base_of RBs" "rt_to_base RBs = None" "rt_to_ptr RBs = None"
      "rt_shared_of_derived RBs = Some cs"
      by simp_all
    from overwrite_shared_function [OF this, of g_hash_function sg key Bs s1 args] d(3)
    show ?thesis by blast
  qed
  have uf: "\<exists>s2. register_function g_hash_function RBu sg key Bu s1 = Some s2 \<and>
        make_unique g_hash_function sg key args s2 =
          (fst (convert_result cu Bu args (world s1)), s2\<lparr>world := snd (Bu args (world s1))\<rparr>) \<and>
        length (filter (\<lambda>p. fst p = g_hash_function key) (g_registry_unique s2 sg)) = 1"
    if "rt_is_base_of RBu \<and> rt_to_base RBu = None \<and> rt_to_ptr RBu = None \<and>
        rt_shared_of_derived RBu = None \<and> rt_unique_of_derived RBu = Some cu"
  proof -
    from that have "rt_is_base_of RBu" "rt_to_base RBu = None" "rt_to_ptr RBu = None"
      "rt_shared_of_derived RBu = None" "rt_unique_of_derived RBu = Some cu"
      by simp_all
    from overwrite_unique_function [OF this, of g_hash_function sg key Bu s1 args] d(4)
    show ?thesis by blast
  qed
  have vt: "\<exists>s2. register_type g_hash_function TB sg key s1 = Some s2 \<and>
        make g_hash_function sg key args s2 =
          (fst (convert_result tb (construct TB sg) args (world s1)),
           s2\<lparr>world := snd (construct TB sg args (world s1))\<rparr>) \<and>
        length (filter (\<lambda>p. fst p = g_hash_function key) (g_registry_value s2 sg)) = 1"
    if "to_base TB = Some tb"
    using overwrite_value_type [OF that, of g_hash_function sg key s1 args] d(1)
    by blast
  have ht: "\<exists>s2. register_type g_hash_function DB sg key s1 = Some s2 \<and>
        make_ptr g_hash_function sg key args s2 =
          (fst (convert_result Some (construct DB sg) args (world s1)),
           s2\<lparr>world := snd (construct DB sg args (world s1))\<rparr>) \<and>
        make_shared g_hash_function sg key args s2 =
          (fst (convert_result Some (construct DB sg) args (world s1)),
           s2\<lparr>world := snd (construct DB sg args (world s1))\<rparr>) \<and>
        make_unique g_hash_function sg key args s2 =
          (fst (convert_result Some (construct DB sg) args (world s1)),
           s2\<lparr>world := snd (construct DB sg args (world s1))\<rparr>) \<and>
        length (filter (\<lambda>p. fst p = g_hash_function key) (g_registry_ptr s2 sg)) = 1 \<and>
        length (filter (\<lambda>p. fst p = g_hash_function key) (g_registry_shared s2 sg)) = 1 \<and>
        length (filter (\<lambda>p. fst p = g_hash_function key) (g_registry_unique s2 sg)) = 1"
    if "is_base_of DB \<and> to_base DB = None"
  proof -
    from that have "is_base_of DB" "to_base DB = None" by simp_all
    from overwrite_handles_type [OF this, of g_hash_function sg key s1 args] d(2,3,4)
    show ?thesis by blast
  qed
  from w vf pf sf uf vt ht show ?thesis
    by (intro conjI impI)
qed

text \<open>
  \<open>ConcreteClassA\<close> is registered under \<open>"k"\<close>, so that \<open>make_ptr\<close> builds its 42;
  then a second producer is registered under \<open>"k"\<close> in each of the six ways, and the
  \<open>make*\<close> of its registry builds what the second producer returns.
\<close>

theorem reregistration_overwrites_witness:
  "unique_ids (initial_factory 0 :: ex_factory) \<and>
   register_type ex_hash ConcreteClassA () ''k'' (initial_factory 0) = Some factory_k \<and>
   make_ptr ex_hash () ''k'' () factory_k = (Inr (Some 42), factory_k\<lparr>world := 1\<rparr>) \<and>
   (\<exists>s2. register_function ex_hash value_return () ''k'' (returning 2) factory_k = Some s2 \<and>
      make ex_hash () ''k'' () s2 = (Inr 2, s2\<lparr>world := 1\<rparr>) \<and>
      length (filter (\<lambda>p. fst p = ex_hash ''k'') (g_registry_value s2 ())) = 1) \<and>
   (\<exists>s2. register_function ex_hash converting_return () ''k'' (returning_handle 84) factory_k
        = Some s2 \<and>
      make_ptr ex_hash () ''k'' () s2 = (Inr (Some 84), s2\<lparr>world := 1\<rparr>) \<and>
      length (filter (\<lambda>p. fst p = ex_hash ''k'') (g_registry_ptr s2 ())) = 1) \<and>
   (\<exists>s2. register_function ex_hash shared_wrapper_return () ''k'' (returning_handle 84) factory_k
        = Some s2 \<and>
      make_shared ex_hash () ''k'' () s2 = (Inr (Some 84), s2\<lparr>world := 1\<rparr>) \<and>
      length (filter (\<lambda>p. fst p = ex_hash ''k'') (g_registry_shared s2 ())) = 1) \<and>
   (\<exists>s2. register_function ex_hash unique_wrapper_return () ''k'' (returning_handle 84) factory_k
        = Some s2 \<and>
      make_unique ex_hash () ''k'' () s2 = (Inr (Some 84), s2\<lparr>world := 1\<rparr>) \<and>
      length (filter (\<lambda>p. fst p = ex_hash ''k'') (g_registry_unique s2 ())) = 1) \<and>
   (\<exists>s2. register_type ex_hash (convertible_type 2 (returning 2)) () ''k'' factory_k = Some s2 \<and>
      make ex_hash () ''k'' () s2 = (Inr 2, s2\<lparr>world := 1\<rparr>) \<and>
      length (filter (\<lambda>p. fst p = ex_hash ''k'') (g_registry_value s2 ())) = 1) \<and>
   (\<exists>s2. register_type ex_hash ConcreteClassB () ''k'' factory_k = Some s2 \<and>
      make_ptr ex_hash () ''k'' () s2 = (Inr (Some 84), s2\<lparr>world := 1\<rparr>) \<and>
      make_shared ex_hash () ''k'' () s2 = (Inr (Some 84), s2\<lparr>world := 1\<rparr>) \<and>
      make_unique ex_hash () ''k'' () s2 = (Inr (Some 84), s2\<lparr>world := 1\<rparr>) \<and>
      length (filter (\<lambda>p. fst p = ex_hash ''k'') (g_registry_ptr s2 ())) = 1 \<and>
      length (filter (\<lambda>p. fst p = ex_hash ''k'') (g_registry_shared s2 ())) = 1 \<and>
      length (filter (\<lambda>p. fst p = ex_hash ''k'') (g_registry_unique s2 ())) = 1)"
proof -
  have u: "unique_ids (initial_factory 0 :: ex_factory)"
    by (rule unique_ids_initial)
  have r: "register_type ex_hash ConcreteClassA () ''k'' (initial_factory 0) = Some factory_k"
    by (simp add: factory_k_def or_initial_def register_type_def ConcreteClassA_def
        derived_type_def Let_def)
  have k: "g_registry_ptr factory_k () = [(ex_hash ''k'', convert_result Some (returning 42))]"
    "world factory_k = 0"
    by (simp_all add: factory_k_def or_initial_def register_type_def ConcreteClassA_def
        derived_type_def initial_factory_def registry_assign_def subscript_def assign_ref_def
        Let_def)
  have a: "make_ptr ex_hash () ''k'' () factory_k = (Inr (Some 42), factory_k\<lparr>world := 1\<rparr>)"
    by (simp add: make_ptr_def find_and_call_map_of k convert_result_def returning_def)
  have "register_function ex_hash value_return () ''k'' (returning 1) (initial_factory 0)
          = Some factory_k \<or>
        register_type ex_hash ConcreteClassA () ''k'' (initial_factory 0) = Some factory_k"
    using r by (rule disjI2)
  note t = reregistration_overwrites
    [OF u this, where RBv = value_return and cv = id and Bv = "returning 2"
       and RBp = converting_return and cp = id and Bp = "returning_handle 84"
       and RBs = shared_wrapper_return and cs = id and Bs = "returning_handle 84"
       and RBu = unique_wrapper_return and cu = id and Bu = "returning_handle 84"
       and TB = "convertible_type 2 (returning 2)" and tb = id
       and DB = ConcreteClassB and args = "()"]
  from u r a t show ?thesis
    by (simp add: k value_return_def converting_return_def shared_wrapper_return_def
        unique_wrapper_return_def convertible_type_def ConcreteClassB_def derived_type_def
        convert_result_def returning_def returning_handle_def)
qed

section \<open>Registration and instantiation by type identity\<close>

text \<open>
  \<open>register_type<T>()\<close> stores the producers under
  \<open>g_hash_function(key_type(typeid(T).hash_code()))\<close>, and the \<open>make*<T>\<close> overloads
  look up \<open>typeid(T).hash_code()\<close> itself. When the two ids agree, the instantiation
  finds the producer registered for \<open>T\<close>.
\<close>

lemma type_identity_round_trip_derived:
  assumes "g_hash_function (key_of_size_t (hash_code T)) = hash_code T"
    and "is_base_of T" and "to_base T = None"
  shows "\<exists>s'. register_type_id g_hash_function key_of_size_t T sg s = Some s' \<and>
     make_ptr_T T sg args s' =
       (fst (convert_result Some (construct T sg) args (world s)),
        s'\<lparr>world := snd (construct T sg args (world s))\<rparr>) \<and>
     make_shared_T T sg args s' =
       (fst (convert_result Some (construct T sg) args (world s)),
        s'\<lparr>world := snd (construct T sg args (world s))\<rparr>) \<and>
     make_unique_T T sg args s' =
       (fst (convert_result Some (construct T sg) args (world s)),
        s'\<lparr>world := snd (construct T sg args (world s))\<rparr>)"
  using register_type_derived_effect
    [OF assms(2,3), of g_hash_function sg "key_of_size_t (hash_code T)" s args]
  unfolding register_type_id_def make_ptr_T_def make_shared_T_def make_unique_T_def
    make_ptr_def make_shared_def make_unique_def assms(1)
  by blast

lemma type_identity_round_trip_convertible:
  assumes "g_hash_function (key_of_size_t (hash_code T)) = hash_code T"
    and "to_base T = Some conv"
  shows "\<exists>s'. register_type_id g_hash_function key_of_size_t T sg s = Some s' \<and>
     make_T T sg args s' =
       Some (fst (convert_result conv (construct T sg) args (world s)),
             s'\<lparr>world := snd (construct T sg args (world s))\<rparr>)"
proof -
  let ?s' = "s\<lparr>g_registry_value := (g_registry_value s)
               (sg := registry_assign (g_registry_value s sg) (hash_code T)
                        (convert_result conv (construct T sg)))\<rparr>"
  have r: "register_type_id g_hash_function key_of_size_t T sg s = Some ?s'"
    unfolding register_type_id_def register_type_convertible [OF assms(2)] assms(1) ..
  have v: "g_registry_value ?s' sg =
      registry_assign (g_registry_value s sg) (hash_code T) (convert_result conv (construct T sg))"
    and w: "world ?s' = world s"
    by simp_all
  have "make_T T sg args ?s' =
       Some (fst (convert_result conv (construct T sg) args (world s)),
             ?s'\<lparr>world := snd (construct T sg args (world s))\<rparr>)"
    unfolding make_T_def v find_and_call_registry_assign w snd_convert_result
    using assms(2) by simp
  with r show ?thesis by blast
qed

lemma wide_hash_code:
  "std_hash_int (int_of_size_t 0x9E3779B97F4A7C15) \<noteq> 0x9E3779B97F4A7C15"
  by (simp add: std_hash_int_def int_of_size_t_def)

text \<open>
  Claim C1. The claim is that after \<open>register_type<T>()\<close> the overloads
  \<open>make<T>\<close>, \<open>make_ptr<T>\<close>, \<open>make_shared<T>\<close> and \<open>make_unique<T>\<close> find the
  producer registered for \<open>T\<close>. The code registers under the hash of the converted
  \<open>hash_code()\<close> and looks up the \<open>hash_code()\<close> unhashed. In a factory with
  \<open>KeyType = int\<close>, for a type whose \<open>hash_code()\<close> is \<open>0x9E3779B97F4A7C15\<close>, the
  registration succeeds from the empty factory and each of the four lookups then throws
  \<open>"Registry not found"\<close>.
\<close>

theorem type_identity_lookup_misses:
  "(\<exists>s'. register_type_id std_hash_int int_of_size_t WideDerived () (initial_factory 0) = Some s' \<and>
      make_ptr_T WideDerived () () s' = (Inl (runtime_error ''Registry not found''), s') \<and>
      make_shared_T WideDerived () () s' = (Inl (runtime_error ''Registry not found''), s') \<and>
      make_unique_T WideDerived () () s' = (Inl (runtime_error ''Registry not found''), s')) \<and>
   (\<exists>s'. register_type_id std_hash_int int_of_size_t WideValue () (initial_factory 0) = Some s' \<and>
      make_T WideValue () () s' = Some (Inl (runtime_error ''Registry not found''), s'))"
  by (simp add: register_type_id_def register_type_def WideDerived_def WideValue_def
      derived_type_def convertible_type_def initial_factory_def Let_def registry_assign_new
      make_T_def make_ptr_T_def make_shared_T_def make_unique_T_def find_and_call_miss
      wide_hash_code [symmetric])

section \<open>Registration of callables\<close>

text \<open>
  A registration that is accepted writes one registry, the first of the cascade whose
  test the return type passes, and leaves the other three as they were.
\<close>

lemma register_function_one_registry:
  assumes "register_function g_hash_function R sg key func s = Some s'"
  shows "(rt_to_base R \<noteq> None \<and> g_registry_ptr s' = g_registry_ptr s \<and>
          g_registry_shared s' = g_registry_shared s \<and>
          g_registry_unique s' = g_registry_unique s) \<or>
         (rt_to_base R = None \<and> rt_to_ptr R \<noteq> None \<and>
          g_registry_value s' = g_registry_value s \<and>
          g_registry_shared s' = g_registry_shared s \<and>
          g_registry_unique s' = g_registry_unique s) \<or>
         (rt_to_base R = None \<and> rt_to_ptr R = None \<and> rt_shared_of_derived R \<noteq> None \<and>
          g_registry_value s' = g_registry_value s \<and>
          g_registry_ptr s' = g_registry_ptr s \<and>
          g_registry_unique s' = g_registry_unique s) \<or>
         (rt_to_base R = None \<and> rt_to_ptr R = None \<and> rt_shared_of_derived R = None \<and>
          rt_unique_of_derived R \<noteq> None \<and>
          g_registry_value s' = g_registry_value s \<and>
          g_registry_ptr s' = g_registry_ptr s \<and>
          g_registry_shared s' = g_registry_shared s)"
  using assms
  by (auto simp: register_function_def register_function_impl_def Let_def
      split: if_splits option.splits)

text \<open>
  The first \<open>static_assert\<close> of \<open>register_function_impl\<close> admits a return type only if
  \<open>base_type\<close> is a base of it or it converts to \<open>base_type\<close>.
\<close>

lemma register_function_accepts:
  "register_function g_hash_function R sg key func s \<noteq> None \<Longrightarrow>
   rt_is_base_of R \<or> rt_to_base R \<noteq> None"
  by (auto simp: register_function_def register_function_impl_def split: if_splits)

text \<open>
  Claim C9. The claim is that a callable whose return type converts to \<open>base_type*\<close>
  is entered into the registry of \<open>base_type*\<close>, and one that returns a shared or unique
  pointer to a derived class into the registry of that pointer. For a callable returning
  \<open>Derived*\<close>, \<open>std::shared_ptr<Derived>\<close> or \<open>std::unique_ptr<Derived>\<close>, with
  \<open>Derived\<close> derived from an abstract \<open>base_type\<close>, the first \<open>static_assert\<close>
  fails: the registration is rejected and no registry receives the callable.
\<close>

theorem register_function_rejects_pointers:
  "register_function ex_hash pointer_return () ''k'' (convert_result Some (returning 42))
     (initial_factory 0 :: ex_factory) = None \<and>
   register_function ex_hash shared_return () ''k'' (convert_result Some (returning 42))
     (initial_factory 0 :: ex_factory) = None \<and>
   register_function ex_hash unique_return () ''k'' (convert_result Some (returning 42))
     (initial_factory 0 :: ex_factory) = None"
  by (simp add: register_function_def register_function_impl_def pointer_return_def
      shared_return_def unique_return_def)

end
